theory Spec2Isabelle
  imports Complex_Main
begin

section \<open>JavaScript values\<close>

text \<open>
  A JavaScript number is modelled as an exact \<^typ>\<open>real\<close>: arithmetic is the
  arithmetic of the reals, not of IEEE doubles. A value that may be \<^verbatim>\<open>null\<close> or
  \<^verbatim>\<open>undefined\<close> is a \<^typ>\<open>real option\<close>. Where the source can divide by zero on
  a path that matters, the outcome (\<^verbatim>\<open>NaN\<close>) is written out as a value of its own.
  Where a property depends on the rounding of the doubles, the computation is written a
  second time with every operation rounded by \<open>toDouble\<close> below; those definitions carry
  the suffix \<open>Double\<close>.
\<close>

text \<open>\<^verbatim>\<open>!x\<close> is false exactly for a number other than 0 (and \<^verbatim>\<open>NaN\<close>).\<close>

definition truthy :: "real option \<Rightarrow> bool" where
  "truthy x = (case x of None \<Rightarrow> False | Some v \<Rightarrow> v \<noteq> 0)"

text \<open>\<^verbatim>\<open>Math.round\<close> rounds to the nearest integer, a tie going up.\<close>

definition Math_round :: "real \<Rightarrow> real" where
  "Math_round x = of_int \<lfloor>x + 1 / 2\<rfloor>"

text \<open>
  \<^verbatim>\<open>x.toFixed(2)\<close>: the number denoted by the resulting string. The sign is split off
  first and the magnitude rounded to the nearest hundredth, a tie taking the larger one.
\<close>

definition toFixed2 :: "real \<Rightarrow> real" where
  "toFixed2 x = (if x < 0 then - (of_int \<lfloor>- x * 100 + 1 / 2\<rfloor> / 100)
                 else of_int \<lfloor>x * 100 + 1 / 2\<rfloor> / 100)"

text \<open>
  The rounding of IEEE 754 binary64 arithmetic: the result of an operation is the exact
  result rounded to 53 significant bits, a tie going to the even significand.
  \<open>scaleAndRound\<close> doubles or halves a positive number until it lies between \<open>2\<^sup>5\<^sup>2\<close> and
  \<open>2\<^sup>5\<^sup>3\<close>, rounds it to an integer there and scales back; 1100 steps reach every
  magnitude a double can have. The exponent range itself is not modelled: there is no
  overflow to \<^verbatim>\<open>Infinity\<close> and no loss of precision below \<open>2\<^sup>-\<^sup>1\<^sup>0\<^sup>2\<^sup>2\<close>, so \<open>toDouble\<close> is
  the rounding of the code for magnitudes from \<open>2\<^sup>-\<^sup>1\<^sup>0\<^sup>2\<^sup>2\<close> up to \<open>2\<^sup>1\<^sup>0\<^sup>2\<^sup>4\<close>. A
  literal such as \<^verbatim>\<open>0.0001\<close> denotes \<open>toDouble 0.0001\<close>.
\<close>

definition roundTiesToEven :: "real \<Rightarrow> int" where
  "roundTiesToEven x =
     (let n = \<lfloor>x\<rfloor>; d = x - of_int n
      in if d < 1 / 2 then n else if d > 1 / 2 then n + 1 else if even n then n else n + 1)"

fun scaleAndRound :: "nat \<Rightarrow> real \<Rightarrow> real" where
  "scaleAndRound 0 x = x"
| "scaleAndRound (Suc n) x =
     (if x < 2 ^ 52 then scaleAndRound n (x * 2) / 2
      else if 2 ^ 53 \<le> x then scaleAndRound n (x / 2) * 2
      else of_int (roundTiesToEven x))"

definition toDouble :: "real \<Rightarrow> real" where
  "toDouble x =
     (if x = 0 then 0
      else if 0 < x then scaleAndRound 1100 x
      else - scaleAndRound 1100 (- x))"

text \<open>
  Strings are lists of bytes. \<^verbatim>\<open>toLowerCase\<close> and the class \<^verbatim>\<open>\s\<close> are modelled on
  ASCII, which covers every profile name of the repository.
\<close>

definition toLowerChar :: "char \<Rightarrow> char" where
  "toLowerChar c =
     (case map_of (zip ''ABCDEFGHIJKLMNOPQRSTUVWXYZ'' ''abcdefghijklmnopqrstuvwxyz'') c of
        Some l \<Rightarrow> l
      | None \<Rightarrow> c)"

definition toLowerCase :: "string \<Rightarrow> string" where
  "toLowerCase s = map toLowerChar s"

definition isWhitespace :: "char \<Rightarrow> bool" where
  "isWhitespace c = (c \<in> set [CHR '' '', CHR 0x09, CHR 0x0A, CHR 0x0B, CHR 0x0C, CHR 0x0D])"

text \<open>\<^verbatim>\<open>name.toLowerCase().replace(/\s+/g, '')\<close>, the first line of every profile switch.\<close>

definition normalizeProfile :: "string \<Rightarrow> string" where
  "normalizeProfile name = filter (\<lambda>c. \<not> isWhitespace c) (toLowerCase name)"

fun startsWith :: "string \<Rightarrow> string \<Rightarrow> bool" where
  "startsWith s [] = True"
| "startsWith [] (p # ps) = False"
| "startsWith (c # cs) (p # ps) = (c = p \<and> startsWith cs ps)"

text \<open>\<^verbatim>\<open>s.includes(sub)\<close>.\<close>

fun str_includes :: "string \<Rightarrow> string \<Rightarrow> bool" where
  "str_includes [] sub = (sub = [])"
| "str_includes (c # cs) sub = (startsWith (c # cs) sub \<or> str_includes cs sub)"

datatype error = TypeError

section \<open>Indicators\<close>

text \<open>
  An entry of an indicator array: \<^verbatim>\<open>null\<close> (the unavailable marker), a number, or
  \<^verbatim>\<open>NaN\<close>, which the divisions by \<^verbatim>\<open>period\<close> produce when \<^verbatim>\<open>period\<close> is 0. The
  period is a count of bars, a natural number.
\<close>

datatype indicatorValue = Null | Num real | NaN

text \<open>
  \<^verbatim>\<open>calculateSMA(data, period)\<close>: one entry per index \<open>i\<close> of \<open>data\<close>; the window is
  \<^verbatim>\<open>data.slice(i - period + 1, i + 1)\<close>.
\<close>

definition calculateSMA :: "real list \<Rightarrow> nat \<Rightarrow> indicatorValue list" where
  "calculateSMA data period =
     map (\<lambda>i. if int i < int period - 1 then Null
              else (let sum = foldl (+) 0 (drop (i + 1 - period) (take (i + 1) data))
                    in if period = 0 then NaN else Num (sum / real period)))
         [0..<length data]"

text \<open>The daily changes: \<^verbatim>\<open>prices[i] - prices[i - 1]\<close> for \<open>i\<close> from 1.\<close>

definition priceChanges :: "real list \<Rightarrow> real list" where
  "priceChanges prices = map (\<lambda>i. prices ! i - prices ! (i - 1)) [1..<length prices]"

text \<open>The inner loop of \<^verbatim>\<open>calculateRSI\<close>: gains and losses over \<open>j\<close> from \<open>i - period\<close> to \<open>i - 1\<close>.\<close>

definition gainsLosses :: "real list \<Rightarrow> nat \<Rightarrow> nat \<Rightarrow> real \<times> real" where
  "gainsLosses changes period i =
     foldl (\<lambda>(gains, losses) j.
              if changes ! j > 0 then (gains + changes ! j, losses)
              else (gains, losses - changes ! j))
       (0, 0) [i - period..<i]"

text \<open>The value pushed at step \<open>i\<close> of the outer loop.\<close>

definition rsiAt :: "real list \<Rightarrow> nat \<Rightarrow> nat \<Rightarrow> indicatorValue" where
  "rsiAt changes period i =
     (case gainsLosses changes period i of
        (gains, losses) \<Rightarrow>
          if period = 0 then NaN
          else (let avgGain = gains / real period;
                    avgLoss = losses / real period
                in if avgLoss = 0 then Num 100
                   else (let rs = avgGain / avgLoss in Num (100 - 100 / (1 + rs)))))"

text \<open>
  \<^verbatim>\<open>calculateRSI(prices, period)\<close>: \<open>period\<close> unavailable markers, then one value for each
  \<open>i\<close> with \<open>period \<le> i < changes.length\<close>.
\<close>

definition calculateRSI :: "real list \<Rightarrow> nat \<Rightarrow> indicatorValue list" where
  "calculateRSI prices period =
     (if length prices \<le> period then replicate (length prices) Null
      else (let changes = priceChanges prices
            in replicate period Null @ map (rsiAt changes period) [period..<length changes]))"

section \<open>Recommendation engine\<close>

subsection \<open>Labels\<close>

datatype recommendation = CompraForte | Compra | Mantieni | Vendi | VendiForte

text \<open>The string each label stands for in the source.\<close>

fun recommendationText :: "recommendation \<Rightarrow> string" where
  "recommendationText CompraForte = ''Compra Forte''"
| "recommendationText Compra = ''Compra''"
| "recommendationText Mantieni = ''Mantieni''"
| "recommendationText Vendi = ''Vendi''"
| "recommendationText VendiForte = ''Vendi Forte''"

text \<open>Position of a label in the ordering StrongSell < Sell < Hold < Buy < StrongBuy.\<close>

fun labelRank :: "recommendation \<Rightarrow> nat" where
  "labelRank VendiForte = 0"
| "labelRank Vendi = 1"
| "labelRank Mantieni = 2"
| "labelRank Compra = 3"
| "labelRank CompraForte = 4"

definition determineRecommendation :: "real \<Rightarrow> recommendation" where
  "determineRecommendation score =
     (if score > 7 then CompraForte
      else if score > 3 then Compra
      else if score > - 3 then Mantieni
      else if score > - 7 then Vendi
      else VendiForte)"

subsection \<open>The indicator snapshot\<close>

text \<open>
  The object \<^verbatim>\<open>technicalIndicators\<close>, with the fields the functions below read. A field
  that the source compares with \<^verbatim>\<open>null\<close> or tests for truth is an option; so is each
  sub-object, since the source guards against its absence. \<^verbatim>\<open>volatility.value\<close> is named
  \<open>volatilityValue\<close>, and the fields of \<^verbatim>\<open>volume\<close> are \<open>volCurrent\<close> and \<open>volAverage\<close>.
\<close>

record priceData =
  current :: real
  change :: real

record movingAverages =
  smaShort :: "real option"
  smaMedium :: "real option"
  smaLong :: "real option"
  ema20 :: "real option"

record momentum =
  rsi :: "real option"
  macd :: "real option"
  macdSignal :: "real option"
  macdHistogram :: "real option"

record volatility =
  volatilityValue :: real
  bollingerUpper :: "real option"
  bollingerMiddle :: "real option"
  bollingerLower :: "real option"

record chartPattern =
  pattern :: string
  direction :: "string option"
  strength :: "string option"
  implication :: "string option"

record trend =
  adx :: "real option"
  plusDI :: "real option"
  minusDI :: "real option"
  patterns :: "chartPattern list"

record levels =
  resistances :: "real list"
  supports :: "real list"

record volume =
  volCurrent :: "real option"
  volAverage :: "real option"

record technicalIndicators =
  priceData :: "priceData option"
  movingAverages :: "movingAverages option"
  momentum :: "momentum option"
  volatility :: "volatility option"
  trend :: "trend option"
  levels :: "levels option"
  volume :: "volume option"

subsection \<open>Signals\<close>

definition calculateRSISignal :: "technicalIndicators \<Rightarrow> real option" where
  "calculateRSISignal ti =
     (case momentum ti of
        None \<Rightarrow> None
      | Some m \<Rightarrow>
          (case rsi m of
             None \<Rightarrow> None
           | Some r \<Rightarrow>
               Some (if r > 75 then - 2
                     else if r > 65 then - 1
                     else if r < 25 then 2
                     else if r < 35 then 1
                     else if r > 60 then - 0.5
                     else if r < 40 then 0.5
                     else 0)))"

definition calculateMACDSignal :: "technicalIndicators \<Rightarrow> real option" where
  "calculateMACDSignal ti =
     (case momentum ti of
        None \<Rightarrow> None
      | Some m \<Rightarrow>
          (case (macd m, macdSignal m, macdHistogram m) of
             (Some macdV, Some signal, Some histogram) \<Rightarrow>
               Some (if macdV > signal
                     then (if histogram > 0
                           then (if histogram > \<bar>macdV * 0.1\<bar> then 2 else 1)
                           else 0.5)
                     else (if histogram < 0
                           then (if histogram < - \<bar>macdV * 0.1\<bar> then - 2 else - 1)
                           else - 0.5))
           | _ \<Rightarrow> None))"

text \<open>
  \<^verbatim>\<open>calculateEMASignal\<close>. The pair is (\<^verbatim>\<open>emaSignal\<close>, \<^verbatim>\<open>validIndicators\<close>) after each of
  the four checks. The ratio \<^verbatim>\<open>ema20 / smaMedium\<close> with a zero divisor is \<open>\<plusminus>Infinity\<close> or
  \<^verbatim>\<open>NaN\<close> in the source; its comparisons with 1.005 and 0.995 are written out.
\<close>

definition calculateEMASignal :: "technicalIndicators \<Rightarrow> real option" where
  "calculateEMASignal ti =
     (case movingAverages ti of
        None \<Rightarrow> None
      | Some mas \<Rightarrow>
          (case priceData ti of
             None \<Rightarrow> None
           | Some pd \<Rightarrow>
               if current pd = 0 then None
               else
                 (let price = current pd;
                      (s1, n1) =
                        (case (ema20 mas, smaMedium mas) of
                           (Some e, Some m) \<Rightarrow> ((if e > m then 1 else - 1), 1)
                         | _ \<Rightarrow> (0, 0));
                      (s2, n2) =
                        (case ema20 mas of
                           Some e \<Rightarrow> (s1 + (if price > e then 1 else - 1), n1 + 1)
                         | None \<Rightarrow> (s1, n1));
                      (s3, n3) =
                        (case smaLong mas of
                           Some l \<Rightarrow> (s2 + (if price > l then 0.5 else - 0.5), n2 + 0.5)
                         | None \<Rightarrow> (s2, n2));
                      (s4, n4) =
                        (case (ema20 mas, smaMedium mas) of
                           (Some e, Some m) \<Rightarrow>
                             (if m = 0
                              then (if e > 0 then s3 + 0.5 else if e < 0 then s3 - 0.5 else s3)
                              else (let ratio = e / m
                                    in if ratio > 1.005 then s3 + 0.5
                                       else if ratio < 0.995 then s3 - 0.5
                                       else s3),
                              n3 + 0.5)
                         | _ \<Rightarrow> (s3, n3))
                  in if n4 > 0 then Some (s4 / n4) else None)))"

definition calculateADXSignal :: "technicalIndicators \<Rightarrow> real option" where
  "calculateADXSignal ti =
     (case trend ti of
        None \<Rightarrow> None
      | Some t \<Rightarrow>
          (case (adx t, plusDI t, minusDI t) of
             (Some adxV, Some plusV, Some minusV) \<Rightarrow>
               (let adxStrength =
                      (if adxV > 30 then 2 else if adxV > 20 then 1.5
                       else if adxV > 15 then 1 else 0.5)
                in Some (if plusV > minusV then adxStrength
                         else if plusV < minusV then - adxStrength
                         else 0))
           | _ \<Rightarrow> None))"

definition calculateBollingerSignal :: "technicalIndicators \<Rightarrow> real option" where
  "calculateBollingerSignal ti =
     (case (volatility ti, priceData ti) of
        (Some v, Some pd) \<Rightarrow>
          if \<not> truthy (bollingerUpper v) \<or> \<not> truthy (bollingerLower v)
             \<or> \<not> truthy (bollingerMiddle v) \<or> current pd = 0
          then None
          else
            (case (bollingerUpper v, bollingerLower v, bollingerMiddle v) of
               (Some upper, Some lower, Some middle) \<Rightarrow>
                 (let price = current pd
                  in if price > upper then Some (- 1.5)
                     else if price < lower then Some 1.5
                     else
                       (let bandRange = upper - lower
                        in if bandRange = 0 then Some 0
                           else
                             (let positionInBand = price - lower;
                                  percentInBand = positionInBand / bandRange
                              in if percentInBand > 0.85 then Some (- 1)
                                 else if percentInBand > 0.65 then Some (- 0.5)
                                 else if percentInBand < 0.15 then Some 1
                                 else if percentInBand < 0.35 then Some 0.5
                                 else
                                   (let distanceFromMiddle = \<bar>price - middle\<bar> / middle
                                    in if distanceFromMiddle < 0.005 then Some 0
                                       else Some 0))))
             | _ \<Rightarrow> None)
      | _ \<Rightarrow> None)"

definition calculateVolumeSignal :: "technicalIndicators \<Rightarrow> real option" where
  "calculateVolumeSignal ti =
     (case (volume ti, priceData ti) of
        (Some vol, Some pd) \<Rightarrow>
          (case (volCurrent vol, volAverage vol) of
             (Some currentVolume, Some avgVolume) \<Rightarrow>
               (let priceChange = change pd
                in if currentVolume > avgVolume * 2
                     then Some (if priceChange > 0 then 2 else - 2)
                   else if currentVolume > avgVolume * 1.5
                     then Some (if priceChange > 0 then 1.5 else - 1.5)
                   else if currentVolume > avgVolume * 1.2
                     then Some (if priceChange > 0 then 1 else - 1)
                   else if currentVolume < avgVolume * 0.5
                     then Some 0.5
                   else Some 0)
           | _ \<Rightarrow> None)
      | _ \<Rightarrow> None)"

text \<open>One turn of the loop of \<^verbatim>\<open>calculatePatternSignal\<close>: the signal value and the weight.\<close>

definition patternContribution :: "chartPattern \<Rightarrow> real \<times> real" where
  "patternContribution p =
     (if pattern p = ''Trend''
        then ((if direction p = Some ''rialzista'' then 1 else - 1),
              (if strength p = Some ''forte'' then 2
               else if strength p = Some ''debole'' then 0.5 else 1))
      else if pattern p = ''Doppio Massimo'' then (- 1.5, 1)
      else if pattern p = ''Doppio Minimo'' then (1.5, 1)
      else if implication p \<noteq> None \<and> implication p \<noteq> Some ''''
        then ((if implication p = Some ''rialzista'' then 1.5
               else if implication p = Some ''ribassista'' then - 1.5 else 0), 1)
      else (0, 1))"

definition calculatePatternSignal :: "technicalIndicators \<Rightarrow> real option" where
  "calculatePatternSignal ti =
     (case trend ti of
        None \<Rightarrow> None
      | Some t \<Rightarrow>
          if patterns t = [] then None
          else
            (case foldl (\<lambda>(patternSignal, patternWeight) p.
                           (case patternContribution p of
                              (signalValue, weight) \<Rightarrow>
                                (patternSignal + signalValue * weight, patternWeight + weight)))
                    (0, 0) (patterns t) of
               (patternSignal, patternWeight) \<Rightarrow>
                 if patternWeight > 0 then Some (patternSignal / patternWeight) else None))"

subsection \<open>Weights and the weighted score\<close>

record weights =
  w_rsi :: real
  w_macd :: real
  w_ema :: real
  w_adx :: real
  w_bollinger :: real
  w_volume :: real
  w_pattern :: real

definition getWeightsForProfile :: "string \<Rightarrow> weights" where
  "getWeightsForProfile profileType =
     (let profile = normalizeProfile profileType
      in if profile = ''falcodelloscalping''
           then \<lparr> w_rsi = 2.5, w_macd = 1.5, w_ema = 2.0, w_adx = 1.5, w_bollinger = 2.0,
                  w_volume = 2.5, w_pattern = 1.0 \<rparr>
         else if profile = ''serpentedelloswingtrading''
                 \<or> profile = ''serpenteoftheswingtrading'' \<or> profile = ''swing''
           then \<lparr> w_rsi = 2.0, w_macd = 2.5, w_ema = 2.0, w_adx = 2.0, w_bollinger = 1.5,
                  w_volume = 1.0, w_pattern = 2.0 \<rparr>
         else if profile = ''orsodellpositiontrading''
                 \<or> profile = ''orsodelpositiontrading'' \<or> profile = ''position''
           then \<lparr> w_rsi = 1.5, w_macd = 2.0, w_ema = 2.5, w_adx = 2.5, w_bollinger = 1.0,
                  w_volume = 0.5, w_pattern = 1.5 \<rparr>
         else if profile = ''tartarugadell'investimentoalungotermine''
                 \<or> profile = ''tartarugadell'investimento''
                 \<or> profile = ''tartarugadellinvestimento'' \<or> profile = ''longterm''
           then \<lparr> w_rsi = 1.0, w_macd = 1.5, w_ema = 3.0, w_adx = 1.5, w_bollinger = 0.5,
                  w_volume = 0.5, w_pattern = 1.0 \<rparr>
         else \<lparr> w_rsi = 2.0, w_macd = 2.0, w_ema = 2.0, w_adx = 2.0, w_bollinger = 1.5,
                w_volume = 1.0, w_pattern = 1.5 \<rparr>)"

text \<open>The object \<^verbatim>\<open>signals\<close>, its keys in the order of the source.\<close>

record signals =
  sig_rsi :: "real option"
  sig_macd :: "real option"
  sig_ema :: "real option"
  sig_adx :: "real option"
  sig_bollinger :: "real option"
  sig_volume :: "real option"
  sig_pattern :: "real option"

definition calculateSignals :: "technicalIndicators \<Rightarrow> signals" where
  "calculateSignals ti =
     \<lparr> sig_rsi = calculateRSISignal ti, sig_macd = calculateMACDSignal ti,
       sig_ema = calculateEMASignal ti, sig_adx = calculateADXSignal ti,
       sig_bollinger = calculateBollingerSignal ti, sig_volume = calculateVolumeSignal ti,
       sig_pattern = calculatePatternSignal ti \<rparr>"

text \<open>
  The loop \<^verbatim>\<open>for (const indicator in weights)\<close>: each key with its signal and its weight;
  the pair is (\<^verbatim>\<open>totalScore\<close>, \<^verbatim>\<open>maxPossibleScore\<close>).
\<close>

definition signalWeightPairs :: "signals \<Rightarrow> weights \<Rightarrow> (real option \<times> real) list" where
  "signalWeightPairs s w =
     [(sig_rsi s, w_rsi w), (sig_macd s, w_macd w), (sig_ema s, w_ema w), (sig_adx s, w_adx w),
      (sig_bollinger s, w_bollinger w), (sig_volume s, w_volume w),
      (sig_pattern s, w_pattern w)]"

definition scoreTotals :: "(real option \<times> real) list \<Rightarrow> real \<times> real" where
  "scoreTotals pairs =
     foldl (\<lambda>(totalScore, maxPossibleScore) (signal, weight).
              (case signal of
                 None \<Rightarrow> (totalScore, maxPossibleScore)
               | Some v \<Rightarrow> (totalScore + v * weight, maxPossibleScore + \<bar>weight * 2\<bar>)))
       (0, 0) pairs"

definition normalizedScore :: "technicalIndicators \<Rightarrow> string \<Rightarrow> real" where
  "normalizedScore ti profileType =
     (case scoreTotals (signalWeightPairs (calculateSignals ti)
                          (getWeightsForProfile profileType)) of
        (totalScore, maxPossibleScore) \<Rightarrow>
          if maxPossibleScore > 0 then (totalScore / maxPossibleScore) * 10 else 0)"

subsection \<open>Confidence\<close>

datatype confidence = Alta | Media | Bassa

datatype tier = alta | media | bassa

text \<open>\<^verbatim>\<open>Object.values(signals).filter(signal => signal !== null)\<close>.\<close>

definition validSignals :: "signals \<Rightarrow> real list" where
  "validSignals s =
     List.map_filter id
       [sig_rsi s, sig_macd s, sig_ema s, sig_adx s, sig_bollinger s, sig_volume s,
        sig_pattern s]"

definition signalMean :: "real list \<Rightarrow> real" where
  "signalMean vs = foldl (+) 0 vs / real (length vs)"

definition signalStdDev :: "real list \<Rightarrow> real" where
  "signalStdDev vs =
     (let mean = signalMean vs;
          squaredDiffs = map (\<lambda>val. (val - mean) ^ 2) vs;
          variance = foldl (+) 0 squaredDiffs / real (length squaredDiffs)
      in sqrt variance)"

text \<open>\<^verbatim>\<open>Math.abs(mean) / (stdDev || 1)\<close>: the divisor is 1 only when \<^verbatim>\<open>stdDev\<close> is 0.\<close>

definition signalToNoise :: "real list \<Rightarrow> real" where
  "signalToNoise vs =
     (let stdDev = signalStdDev vs
      in \<bar>signalMean vs\<bar> / (if stdDev = 0 then 1 else stdDev))"

definition determineConfidence :: "real \<Rightarrow> signals \<Rightarrow> confidence" where
  "determineConfidence score s =
     (let vs = validSignals s
      in if length vs < 2 then Bassa
         else
           (let scoreStrength =
                  (if \<bar>score\<bar> > 5 then alta else if \<bar>score\<bar> > 2 then media else bassa);
                signalCoherence =
                  (if signalToNoise vs > 1.5 then alta
                   else if signalToNoise vs > 0.8 then media else bassa)
            in if scoreStrength = alta \<and> signalCoherence = alta then Alta
               else if scoreStrength = bassa \<or> signalCoherence = bassa then Bassa
               else Media))"

text \<open>
  The confidence rule in the words of the specification, the divisor of the
  signal-to-noise ratio left open: mean and population standard deviation of the values,
  \<open>signalToNoise = |mean| / divisor stdDev\<close>, the two tiers, and their combination.
\<close>

definition confidenceRule :: "(real \<Rightarrow> real) \<Rightarrow> real \<Rightarrow> real list \<Rightarrow> confidence" where
  "confidenceRule divisor score vs =
     (let mean = sum_list vs / real (length vs);
          stdDev = sqrt (sum_list (map (\<lambda>v. (v - mean) ^ 2) vs) / real (length vs));
          ratio = \<bar>mean\<bar> / divisor stdDev;
          strengthHigh = (\<bar>score\<bar> > 5);
          strengthLow = (\<bar>score\<bar> \<le> 2);
          coherenceHigh = (ratio > 1.5);
          coherenceLow = (ratio \<le> 0.8)
      in if strengthHigh \<and> coherenceHigh then Alta
         else if strengthLow \<or> coherenceLow then Bassa
         else Media)"

subsection \<open>The recommendation\<close>

text \<open>
  The object returned by \<^verbatim>\<open>calculateWeightedRecommendation\<close>. Its \<^verbatim>\<open>score\<close> is the string
  \<^verbatim>\<open>normalizedScore.toFixed(2)\<close>, modelled by the number the string denotes.
\<close>

record weightedRecommendation =
  recommendationLabel :: recommendation
  score :: real
  confidenceLevel :: confidence

definition calculateWeightedRecommendation ::
    "technicalIndicators \<Rightarrow> string \<Rightarrow> weightedRecommendation" where
  "calculateWeightedRecommendation ti profileType =
     (let n = normalizedScore ti profileType
      in \<lparr> recommendationLabel = determineRecommendation n,
           score = toFixed2 n,
           confidenceLevel = determineConfidence n (calculateSignals ti) \<rparr>)"

text \<open>A signal is the unavailable marker or a number in \<open>[-2, 2]\<close>.\<close>

definition inSignalRange :: "real option \<Rightarrow> bool" where
  "inSignalRange x = (case x of None \<Rightarrow> True | Some v \<Rightarrow> - 2 \<le> v \<and> v \<le> 2)"

text \<open>
  A snapshot on which only RSI and ADX are available: RSI 38 gives the signal 0.5, and
  ADX 25 with \<open>+DI\<close> above \<open>-DI\<close> gives 1.5.
\<close>

definition exampleSnapshot :: technicalIndicators where
  "exampleSnapshot =
     \<lparr> priceData = None, movingAverages = None,
       momentum = Some \<lparr> rsi = Some 38, macd = None, macdSignal = None,
                         macdHistogram = None \<rparr>,
       volatility = None,
       trend = Some \<lparr> adx = Some 25, plusDI = Some 30, minusDI = Some 10, patterns = [] \<rparr>,
       levels = None, volume = None \<rparr>"

definition exampleSignals :: signals where
  "exampleSignals =
     \<lparr> sig_rsi = Some (1 / 2), sig_macd = None, sig_ema = None, sig_adx = Some (3 / 2),
       sig_bollinger = None, sig_volume = None, sig_pattern = None \<rparr>"

section \<open>Money management\<close>

record mmSettings =
  maxRiskPerTrade :: real
  maxDailyRisk :: real
  maxDrawdown :: real
  volatilityMultiplier :: real
  scaleInLevels :: real
  scaleOutLevels :: real
  positionSizeAdjustment :: real
  recommendedLeverage :: real

text \<open>
  The module-level variable \<^verbatim>\<open>userSettings\<close>: one settings object under each of the four
  profile keys. \<open>otherKeys\<close> holds the own properties that
  \<^verbatim>\<open>updateMoneyManagementSettings\<close> adds under any other key. The variable is read by
  \<^verbatim>\<open>getMoneyManagementSettings\<close> and written by \<^verbatim>\<open>updateMoneyManagementSettings\<close>, by
  \<^verbatim>\<open>resetToDefaultSettings\<close> and \<^verbatim>\<open>loadMoneyManagementSettings\<close>, and through the objects
  that \<^verbatim>\<open>getMoneyManagementSettings\<close> hands out; the functions below take it as an explicit
  store.
\<close>

record settingsPatch =
  newMaxRiskPerTrade :: "real option"
  newMaxDailyRisk :: "real option"
  newMaxDrawdown :: "real option"
  newVolatilityMultiplier :: "real option"
  newScaleInLevels :: "real option"
  newScaleOutLevels :: "real option"
  newPositionSizeAdjustment :: "real option"
  newRecommendedLeverage :: "real option"

record userSettings =
  scalping :: mmSettings
  swing :: mmSettings
  position :: mmSettings
  longterm :: mmSettings
  otherKeys :: "(string \<times> settingsPatch) list"

definition moneyManagementDefaults :: userSettings where
  "moneyManagementDefaults =
     \<lparr> scalping = \<lparr> maxRiskPerTrade = 0.01, maxDailyRisk = 0.03, maxDrawdown = 0.05,
                     volatilityMultiplier = 0.8, scaleInLevels = 2, scaleOutLevels = 3,
                     positionSizeAdjustment = 1.2, recommendedLeverage = 10 \<rparr>,
       swing = \<lparr> maxRiskPerTrade = 0.015, maxDailyRisk = 0.04, maxDrawdown = 0.08,
                  volatilityMultiplier = 1.0, scaleInLevels = 3, scaleOutLevels = 3,
                  positionSizeAdjustment = 1.0, recommendedLeverage = 5 \<rparr>,
       position = \<lparr> maxRiskPerTrade = 0.02, maxDailyRisk = 0.05, maxDrawdown = 0.12,
                     volatilityMultiplier = 1.2, scaleInLevels = 4, scaleOutLevels = 2,
                     positionSizeAdjustment = 0.9, recommendedLeverage = 3 \<rparr>,
       longterm = \<lparr> maxRiskPerTrade = 0.025, maxDailyRisk = 0.05, maxDrawdown = 0.15,
                     volatilityMultiplier = 1.5, scaleInLevels = 5, scaleOutLevels = 2,
                     positionSizeAdjustment = 0.8, recommendedLeverage = 1 \<rparr>,
       otherKeys = [] \<rparr>"

text \<open>The four profile keys, and the object held under a key.\<close>

datatype profileKey = ScalpingKey | SwingKey | PositionKey | LongtermKey

fun storeEntry :: "userSettings \<Rightarrow> profileKey \<Rightarrow> mmSettings" where
  "storeEntry store ScalpingKey = scalping store"
| "storeEntry store SwingKey = swing store"
| "storeEntry store PositionKey = position store"
| "storeEntry store LongtermKey = longterm store"

fun setStoreEntry :: "userSettings \<Rightarrow> profileKey \<Rightarrow> mmSettings \<Rightarrow> userSettings" where
  "setStoreEntry store ScalpingKey s = store\<lparr>scalping := s\<rparr>"
| "setStoreEntry store SwingKey s = store\<lparr>swing := s\<rparr>"
| "setStoreEntry store PositionKey s = store\<lparr>position := s\<rparr>"
| "setStoreEntry store LongtermKey s = store\<lparr>longterm := s\<rparr>"

definition keyOf :: "string \<Rightarrow> profileKey option" where
  "keyOf profileType =
     (if profileType = ''scalping'' then Some ScalpingKey
      else if profileType = ''swing'' then Some SwingKey
      else if profileType = ''position'' then Some PositionKey
      else if profileType = ''longterm'' then Some LongtermKey
      else None)"

record accountInfo =
  balance :: real

text \<open>
  The chain of tests at the head of \<^verbatim>\<open>getMoneyManagementSettings\<close>: the key whose entry
  becomes \<^verbatim>\<open>settings\<close>.
\<close>

definition selectedKey :: "string \<Rightarrow> profileKey" where
  "selectedKey profileName =
     (let profile = normalizeProfile profileName
      in if str_includes profile ''scalp'' \<or> str_includes profile ''falco''
           then ScalpingKey
         else if str_includes profile ''swing'' \<or> str_includes profile ''serpente''
           then SwingKey
         else if str_includes profile ''position'' \<or> str_includes profile ''orso''
           then PositionKey
         else if str_includes profile ''longterm'' \<or> str_includes profile ''tartaruga''
           then LongtermKey
         else SwingKey)"

text \<open>
  The object that \<^verbatim>\<open>getMoneyManagementSettings\<close> returns: the store's own object under a
  key, returned by reference, or a new object made by a spread. \<open>objectValue\<close> reads its
  fields while the store is in the given state.
\<close>

datatype settingsObject = StoreEntry profileKey | FreshObject mmSettings

fun objectValue :: "userSettings \<Rightarrow> settingsObject \<Rightarrow> mmSettings" where
  "objectValue store (StoreEntry k) = storeEntry store k"
| "objectValue store (FreshObject s) = s"

text \<open>
  \<^verbatim>\<open>getMoneyManagementSettings(accountInfo, profileName)\<close>, with the store it reads as
  first argument. \<^verbatim>\<open>accountInfo\<close> may be \<^verbatim>\<open>null\<close>. Only the two adjustments for small
  and large balances build a new object.
\<close>

definition getMoneyManagementSettings ::
    "userSettings \<Rightarrow> accountInfo option \<Rightarrow> string \<Rightarrow> settingsObject" where
  "getMoneyManagementSettings store acct profileName =
     (let key = selectedKey profileName;
          settings = storeEntry store key
      in case acct of
           None \<Rightarrow> StoreEntry key
         | Some a \<Rightarrow>
             if balance a = 0 then StoreEntry key
             else if balance a < 1000
               then FreshObject
                      (settings\<lparr>maxRiskPerTrade := max 0.005 (maxRiskPerTrade settings * 0.7)\<rparr>)
             else if balance a > 50000
               then FreshObject
                      (settings\<lparr>maxRiskPerTrade := min 0.01 (maxRiskPerTrade settings * 0.8)\<rparr>)
             else StoreEntry key)"

text \<open>
  A caller's assignment to fields of the object it was handed, right after the call: a
  write to the store when the object is the store's own.
\<close>

fun writeThrough ::
    "userSettings \<Rightarrow> settingsObject \<Rightarrow> (mmSettings \<Rightarrow> mmSettings) \<Rightarrow> userSettings" where
  "writeThrough store (StoreEntry k) f = setStoreEntry store k (f (storeEntry store k))"
| "writeThrough store (FreshObject s) f = store"

text \<open>
  The argument \<^verbatim>\<open>newSettings\<close> of \<^verbatim>\<open>updateMoneyManagementSettings\<close> is an object holding
  some of the settings' keys, a \<open>settingsPatch\<close>.
\<close>

definition noPatch :: settingsPatch where
  "noPatch = \<lparr> newMaxRiskPerTrade = None, newMaxDailyRisk = None, newMaxDrawdown = None,
               newVolatilityMultiplier = None, newScaleInLevels = None,
               newScaleOutLevels = None, newPositionSizeAdjustment = None,
               newRecommendedLeverage = None \<rparr>"

text \<open>The object spread \<^verbatim>\<open>{...old, ...newSettings}\<close>, on a full and on a partial object.\<close>

definition spreadSettings :: "mmSettings \<Rightarrow> settingsPatch \<Rightarrow> mmSettings" where
  "spreadSettings old new =
     \<lparr> maxRiskPerTrade = (case newMaxRiskPerTrade new of Some v \<Rightarrow> v | None \<Rightarrow> maxRiskPerTrade old),
       maxDailyRisk = (case newMaxDailyRisk new of Some v \<Rightarrow> v | None \<Rightarrow> maxDailyRisk old),
       maxDrawdown = (case newMaxDrawdown new of Some v \<Rightarrow> v | None \<Rightarrow> maxDrawdown old),
       volatilityMultiplier =
         (case newVolatilityMultiplier new of Some v \<Rightarrow> v | None \<Rightarrow> volatilityMultiplier old),
       scaleInLevels = (case newScaleInLevels new of Some v \<Rightarrow> v | None \<Rightarrow> scaleInLevels old),
       scaleOutLevels = (case newScaleOutLevels new of Some v \<Rightarrow> v | None \<Rightarrow> scaleOutLevels old),
       positionSizeAdjustment =
         (case newPositionSizeAdjustment new of Some v \<Rightarrow> v | None \<Rightarrow> positionSizeAdjustment old),
       recommendedLeverage =
         (case newRecommendedLeverage new of Some v \<Rightarrow> v | None \<Rightarrow> recommendedLeverage old) \<rparr>"

definition orElse :: "real option \<Rightarrow> real option \<Rightarrow> real option" where
  "orElse new old = (case new of Some v \<Rightarrow> Some v | None \<Rightarrow> old)"

definition spreadPatch :: "settingsPatch \<Rightarrow> settingsPatch \<Rightarrow> settingsPatch" where
  "spreadPatch old new =
     \<lparr> newMaxRiskPerTrade = orElse (newMaxRiskPerTrade new) (newMaxRiskPerTrade old),
       newMaxDailyRisk = orElse (newMaxDailyRisk new) (newMaxDailyRisk old),
       newMaxDrawdown = orElse (newMaxDrawdown new) (newMaxDrawdown old),
       newVolatilityMultiplier =
         orElse (newVolatilityMultiplier new) (newVolatilityMultiplier old),
       newScaleInLevels = orElse (newScaleInLevels new) (newScaleInLevels old),
       newScaleOutLevels = orElse (newScaleOutLevels new) (newScaleOutLevels old),
       newPositionSizeAdjustment =
         orElse (newPositionSizeAdjustment new) (newPositionSizeAdjustment old),
       newRecommendedLeverage =
         orElse (newRecommendedLeverage new) (newRecommendedLeverage old) \<rparr>"

text \<open>
  The keys that \<^verbatim>\<open>userSettings\<close>, made by \<^verbatim>\<open>JSON.parse\<close>, inherits from
  \<^verbatim>\<open>Object.prototype\<close>. Their values are functions or objects, so the test
  \<^verbatim>\<open>!userSettings[profileType]\<close> lets them pass, and none has an enumerable property of
  its own to spread.
\<close>

definition objectPrototypeKeys :: "string list" where
  "objectPrototypeKeys =
     [''constructor'', ''toString'', ''toLocaleString'', ''valueOf'', ''hasOwnProperty'',
      ''isPrototypeOf'', ''propertyIsEnumerable'', ''__proto__'', ''__defineGetter__'',
      ''__defineSetter__'', ''__lookupGetter__'', ''__lookupSetter__'']"

text \<open>
  What \<^verbatim>\<open>updateMoneyManagementSettings\<close> returns: \<^verbatim>\<open>null\<close>, or the object now held under
  the key, \<^verbatim>\<open>userSettings[profileType]\<close>.
\<close>

datatype updateResult = NullResult | ProfileEntry profileKey | OtherEntry string

text \<open>
  \<^verbatim>\<open>updateMoneyManagementSettings(profileType, newSettings)\<close>: the value returned and the
  store afterwards. Under one of the four keys the entry is replaced by a new object.
  Under a key the store already holds, or inherits, the guard passes as well and the
  merged object becomes an own property; the four entries stay as they are. (An
  assignment under \<^verbatim>\<open>__proto__\<close> sets the prototype instead, after which the keys of that
  object are inherited too; that further effect on the guard is not modelled.) The copy
  written to \<^verbatim>\<open>localStorage\<close> is not part of the model.
\<close>

definition updateMoneyManagementSettings ::
    "userSettings \<Rightarrow> string \<Rightarrow> settingsPatch \<Rightarrow> updateResult \<times> userSettings" where
  "updateMoneyManagementSettings store profileType newSettings =
     (if profileType = [] then (NullResult, store)
      else
        (case keyOf profileType of
           Some k \<Rightarrow>
             (ProfileEntry k,
              setStoreEntry store k (spreadSettings (storeEntry store k) newSettings))
         | None \<Rightarrow>
             (case map_of (otherKeys store) profileType of
                Some old \<Rightarrow>
                  (OtherEntry profileType,
                   store\<lparr>otherKeys :=
                           (profileType, spreadPatch old newSettings)
                             # filter (\<lambda>(k, v). k \<noteq> profileType) (otherKeys store)\<rparr>)
              | None \<Rightarrow>
                  if profileType \<in> set objectPrototypeKeys
                  then (OtherEntry profileType,
                        store\<lparr>otherKeys := (profileType, newSettings) # otherKeys store\<rparr>)
                  else (NullResult, store))))"

text \<open>
  \<^verbatim>\<open>resetToDefaultSettings(profileType)\<close>, the second writer: without a profile type the
  whole store becomes a copy of the defaults, with one of the four keys that entry does.
  The guard reads \<^verbatim>\<open>moneyManagementDefaults[profileType]\<close>, which an inherited key passes
  too: the copy \<^verbatim>\<open>JSON.parse(JSON.stringify(f))\<close> of an inherited function throws, and under
  \<^verbatim>\<open>__proto__\<close> the assignment replaces the prototype and leaves the entries alone.
\<close>

datatype resetResult = ResetNull | ResetThrows | WholeStore | ResetEntry profileKey
  | ResetPrototype

definition resetToDefaultSettings ::
    "userSettings \<Rightarrow> string \<Rightarrow> resetResult \<times> userSettings" where
  "resetToDefaultSettings store profileType =
     (if profileType = [] then (WholeStore, moneyManagementDefaults)
      else
        (case keyOf profileType of
           Some k \<Rightarrow>
             (ResetEntry k, setStoreEntry store k (storeEntry moneyManagementDefaults k))
         | None \<Rightarrow>
             if profileType = ''__proto__'' then (ResetPrototype, store)
             else if profileType \<in> set objectPrototypeKeys then (ResetThrows, store)
             else (ResetNull, store)))"

text \<open>
  \<^verbatim>\<open>loadMoneyManagementSettings()\<close>, the third writer, run once when the module is loaded:
  the store becomes what \<^verbatim>\<open>localStorage\<close> holds. \<open>saved\<close> is the parsed item, \<open>None\<close> when
  there is none or it fails to parse; an item that the module itself has written parses
  to a store.
\<close>

definition loadMoneyManagementSettings ::
    "userSettings option \<Rightarrow> userSettings \<Rightarrow> bool \<times> userSettings" where
  "loadMoneyManagementSettings saved store =
     (case saved of Some s \<Rightarrow> (True, s) | None \<Rightarrow> (False, store))"

text \<open>
  \<^verbatim>\<open>calculatePositionSize(accountBalance, riskPercent, maxRiskPerTrade, volatility = 15)\<close>.
  An argument is \<open>None\<close> when the caller passes \<^verbatim>\<open>undefined\<close> or leaves it out. The
  constants of the body are definitions of their own, so that properties can name them.
\<close>

text \<open>\<^verbatim>\<open>if (!accountBalance || accountBalance <= 0) accountBalance = 10000\<close>.\<close>

definition checkedBalance :: "real option \<Rightarrow> real" where
  "checkedBalance accountBalance =
     (case accountBalance of
        None \<Rightarrow> 10000
      | Some b \<Rightarrow> if b = 0 \<or> b \<le> 0 then 10000 else b)"

definition checkedRiskPercent :: "real option \<Rightarrow> real" where
  "checkedRiskPercent riskPercent =
     (case riskPercent of
        None \<Rightarrow> 0.01
      | Some r \<Rightarrow> if r = 0 \<or> r \<le> 0 then 0.01 else r)"

definition checkedMaxRisk :: "real option \<Rightarrow> real" where
  "checkedMaxRisk maxRisk =
     (case maxRisk of
        None \<Rightarrow> 0.02
      | Some m \<Rightarrow> if m = 0 \<or> m \<le> 0 then 0.02 else m)"

definition volatilityFactor :: "real option \<Rightarrow> real" where
  "volatilityFactor volatilityArg =
     (let v = (case volatilityArg of None \<Rightarrow> 15 | Some x \<Rightarrow> x)
      in if v > 25 then 0.8 else if v < 10 then 1.2 else 1.0)"

definition estimatedPipValue :: "real \<Rightarrow> real" where
  "estimatedPipValue accountBalance = accountBalance * 0.0001"

text \<open>
  The size before rounding and clamping:
  \<^verbatim>\<open>(riskAmount / estimatedPipValue) * volatilityFactor\<close>.
\<close>

definition basePositionSize ::
    "real option \<Rightarrow> real option \<Rightarrow> real option \<Rightarrow> real option \<Rightarrow> real" where
  "basePositionSize accountBalance riskPercent maxRisk volatilityArg =
     (let b = checkedBalance accountBalance;
          effectiveRiskPercent = min (checkedRiskPercent riskPercent) (checkedMaxRisk maxRisk);
          riskAmount = b * effectiveRiskPercent
      in (riskAmount / estimatedPipValue b) * volatilityFactor volatilityArg)"

text \<open>The ceiling: \<^verbatim>\<open>accountBalance * 0.05 / estimatedPipValue\<close>.\<close>

definition maxSize :: "real option \<Rightarrow> real" where
  "maxSize accountBalance =
     (let b = checkedBalance accountBalance in b * 0.05 / estimatedPipValue b)"

definition calculatePositionSize ::
    "real option \<Rightarrow> real option \<Rightarrow> real option \<Rightarrow> real option \<Rightarrow> real" where
  "calculatePositionSize accountBalance riskPercent maxRisk volatilityArg =
     (let positionSize = basePositionSize accountBalance riskPercent maxRisk volatilityArg;
          positionSize = Math_round (positionSize * 100) / 100
      in min positionSize (maxSize accountBalance))"

text \<open>
  The same computation as the code performs it, every product and quotient rounded to a
  double. The arguments stand for the doubles that the caller passes; the defaults are
  the doubles of the literals; \<^verbatim>\<open>Math.round\<close> and \<^verbatim>\<open>Math.min\<close> are exact on doubles.
\<close>

definition checkedRiskPercentDouble :: "real option \<Rightarrow> real" where
  "checkedRiskPercentDouble riskPercent =
     (case riskPercent of
        None \<Rightarrow> toDouble 0.01
      | Some r \<Rightarrow> if r = 0 \<or> r \<le> 0 then toDouble 0.01 else r)"

definition checkedMaxRiskDouble :: "real option \<Rightarrow> real" where
  "checkedMaxRiskDouble maxRisk =
     (case maxRisk of
        None \<Rightarrow> toDouble 0.02
      | Some m \<Rightarrow> if m = 0 \<or> m \<le> 0 then toDouble 0.02 else m)"

definition volatilityFactorDouble :: "real option \<Rightarrow> real" where
  "volatilityFactorDouble volatilityArg =
     (let v = (case volatilityArg of None \<Rightarrow> 15 | Some x \<Rightarrow> x)
      in if v > 25 then toDouble 0.8 else if v < 10 then toDouble 1.2 else 1)"

definition estimatedPipValueDouble :: "real \<Rightarrow> real" where
  "estimatedPipValueDouble accountBalance = toDouble (accountBalance * toDouble 0.0001)"

definition basePositionSizeDouble ::
    "real option \<Rightarrow> real option \<Rightarrow> real option \<Rightarrow> real option \<Rightarrow> real" where
  "basePositionSizeDouble accountBalance riskPercent maxRisk volatilityArg =
     (let b = checkedBalance accountBalance;
          effectiveRiskPercent =
            min (checkedRiskPercentDouble riskPercent) (checkedMaxRiskDouble maxRisk);
          riskAmount = toDouble (b * effectiveRiskPercent)
      in toDouble (toDouble (riskAmount / estimatedPipValueDouble b)
                     * volatilityFactorDouble volatilityArg))"

definition maxSizeDouble :: "real option \<Rightarrow> real" where
  "maxSizeDouble accountBalance =
     (let b = checkedBalance accountBalance
      in toDouble (toDouble (b * toDouble 0.05) / estimatedPipValueDouble b))"

definition calculatePositionSizeDouble ::
    "real option \<Rightarrow> real option \<Rightarrow> real option \<Rightarrow> real option \<Rightarrow> real" where
  "calculatePositionSizeDouble accountBalance riskPercent maxRisk volatilityArg =
     (let positionSize = basePositionSizeDouble accountBalance riskPercent maxRisk volatilityArg;
          positionSize = toDouble (Math_round (toDouble (positionSize * 100)) / 100)
      in min positionSize (maxSizeDouble accountBalance))"

section \<open>Stop loss, target price and risk/reward\<close>

text \<open>
  \<^verbatim>\<open>findNearestSupportBelow\<close>: the largest support below the current price
  (\<^verbatim>\<open>Math.max\<close> of a list that is not empty).
\<close>

definition findNearestSupportBelow :: "technicalIndicators \<Rightarrow> real option" where
  "findNearestSupportBelow ti =
     (case (levels ti, priceData ti) of
        (Some lv, Some pd) \<Rightarrow>
          if supports lv = [] then None
          else (case filter (\<lambda>support. support < current pd) (supports lv) of
                  [] \<Rightarrow> None
                | x # xs \<Rightarrow> Some (foldl max x xs))
      | _ \<Rightarrow> None)"

definition findNearestResistanceAbove :: "technicalIndicators \<Rightarrow> real option" where
  "findNearestResistanceAbove ti =
     (case (levels ti, priceData ti) of
        (Some lv, Some pd) \<Rightarrow>
          if resistances lv = [] then None
          else (case filter (\<lambda>resistance. resistance > current pd) (resistances lv) of
                  [] \<Rightarrow> None
                | x # xs \<Rightarrow> Some (foldl min x xs))
      | _ \<Rightarrow> None)"

record fibonacciTargets =
  target1 :: real
  target2 :: real
  target3 :: real
  target4 :: real

definition calculateFibonacciTargetsLong :: "technicalIndicators \<Rightarrow> fibonacciTargets option" where
  "calculateFibonacciTargetsLong ti =
     (case priceData ti of
        None \<Rightarrow> None
      | Some pd \<Rightarrow>
          (let currentPrice = current pd;
               support = findNearestSupportBelow ti
           in if \<not> truthy support then None
              else (case support of
                      None \<Rightarrow> None
                    | Some supportV \<Rightarrow>
                        (let priceRange = currentPrice - supportV
                         in Some \<lparr> target1 = currentPrice + priceRange * 0.382,
                                   target2 = currentPrice + priceRange * 0.618,
                                   target3 = currentPrice + priceRange * 1.0,
                                   target4 = currentPrice + priceRange * 1.618 \<rparr>))))"

definition calculateFibonacciTargetsShort :: "technicalIndicators \<Rightarrow> fibonacciTargets option" where
  "calculateFibonacciTargetsShort ti =
     (case priceData ti of
        None \<Rightarrow> None
      | Some pd \<Rightarrow>
          (let currentPrice = current pd;
               resistance = findNearestResistanceAbove ti
           in if \<not> truthy resistance then None
              else (case resistance of
                      None \<Rightarrow> None
                    | Some resistanceV \<Rightarrow>
                        (let priceRange = resistanceV - currentPrice
                         in Some \<lparr> target1 = currentPrice - priceRange * 0.382,
                                   target2 = currentPrice - priceRange * 0.618,
                                   target3 = currentPrice - priceRange * 1.0,
                                   target4 = currentPrice - priceRange * 1.618 \<rparr>))))"

text \<open>The argument \<^verbatim>\<open>direction\<close>: the callers pass \<^verbatim>\<open>'long'\<close> or \<^verbatim>\<open>'short'\<close>.\<close>

datatype tradeDirection = long | short

definition calculateATRStopLoss ::
    "technicalIndicators \<Rightarrow> tradeDirection \<Rightarrow> real \<Rightarrow> real option" where
  "calculateATRStopLoss ti dir multiplier =
     (case (priceData ti, volatility ti) of
        (Some pd, Some v) \<Rightarrow>
          (let atrEstimate = current pd * (volatilityValue v / 100) / sqrt 252;
               currentPrice = current pd
           in case dir of
                long \<Rightarrow> Some (currentPrice - (atrEstimate * multiplier))
              | short \<Rightarrow> Some (currentPrice + (atrEstimate * multiplier)))
      | _ \<Rightarrow> None)"

definition findMABasedStopLoss :: "technicalIndicators \<Rightarrow> tradeDirection \<Rightarrow> real option" where
  "findMABasedStopLoss ti dir =
     (case movingAverages ti of
        None \<Rightarrow> None
      | Some mas \<Rightarrow>
          (case priceData ti of
             None \<Rightarrow> None
           | Some pd \<Rightarrow>
               if current pd = 0 then None
               else
                 (let currentPrice = current pd;
                      mavs = List.map_filter id [smaShort mas, ema20 mas, smaMedium mas]
                  in case dir of
                       long \<Rightarrow>
                         (case filter (\<lambda>ma. ma < currentPrice) mavs of
                            [] \<Rightarrow> None
                          | x # xs \<Rightarrow> Some (foldl max x xs))
                     | short \<Rightarrow>
                         (case filter (\<lambda>ma. ma > currentPrice) mavs of
                            [] \<Rightarrow> None
                          | x # xs \<Rightarrow> Some (foldl min x xs)))))"

text \<open>
  A candidate stop or target: \<^verbatim>\<open>{ value, weight, type }\<close>. The \<^verbatim>\<open>description\<close> of a
  target is text only and is left out.
\<close>

record candidate =
  cValue :: real
  cWeight :: real
  cType :: string

text \<open>\<^verbatim>\<open>if (x) possibleStops.push({ value: x, weight: w, type: t })\<close>.\<close>

definition pushIfTruthy :: "real option \<Rightarrow> real \<Rightarrow> string \<Rightarrow> candidate list" where
  "pushIfTruthy x w t =
     (case x of
        None \<Rightarrow> []
      | Some v \<Rightarrow> if v = 0 then [] else [\<lparr> cValue = v, cWeight = w, cType = t \<rparr>])"

text \<open>
  The selection loop of \<^verbatim>\<open>calculateOptimalStopLoss\<close>. The pair is (\<^verbatim>\<open>bestStop\<close>,
  \<^verbatim>\<open>bestScore\<close>); the score \<open>None\<close> is the initial \<^verbatim>\<open>-Infinity\<close>, which any score exceeds.
\<close>

definition selectBestStop :: "real \<Rightarrow> candidate list \<Rightarrow> real option" where
  "selectBestStop currentPrice possibleStops =
     fst (foldl (\<lambda>(bestStop, bestScore) stop.
                   (let distance = \<bar>(cValue stop - currentPrice) / currentPrice\<bar>;
                        stopScore = distance * cWeight stop
                    in if (case bestScore of None \<Rightarrow> True | Some b \<Rightarrow> stopScore > b)
                       then (Some (cValue stop), Some stopScore)
                       else (bestStop, bestScore)))
            (None, None) possibleStops)"

text \<open>
  \<^verbatim>\<open>calculateOptimalStopLoss\<close>. Without \<^verbatim>\<open>priceData\<close> no source yields a candidate and
  the function returns \<^verbatim>\<open>null\<close> before the loop. With a current price of 0 the only
  possible candidate is a support or resistance, which the loop then takes whatever its
  score.
\<close>

definition calculateOptimalStopLoss ::
    "technicalIndicators \<Rightarrow> tradeDirection \<Rightarrow> string \<Rightarrow> real option" where
  "calculateOptimalStopLoss ti dir profileType =
     (let profile = normalizeProfile profileType;
          levelStops =
            (case dir of
               long \<Rightarrow> pushIfTruthy (findNearestSupportBelow ti) 3 ''support''
             | short \<Rightarrow> pushIfTruthy (findNearestResistanceAbove ti) 3 ''resistance'');
          atrMultiplier =
            (if profile = ''falcodelloscalping'' then 1.5
             else if profile = ''serpentedelloswingtrading'' \<or> profile = ''swing'' then 2
             else if profile = ''orsodellpositiontrading'' \<or> profile = ''position'' then 2.5
             else if profile = ''tartarugadell'investimento'' \<or> profile = ''longterm'' then 3
             else 2);
          atrStops = pushIfTruthy (calculateATRStopLoss ti dir atrMultiplier) 2 ''atr'';
          maStops = pushIfTruthy (findMABasedStopLoss ti dir) 2 ''ma'';
          percentStops =
            (case priceData ti of
               None \<Rightarrow> []
             | Some pd \<Rightarrow>
                 if current pd = 0 then []
                 else
                   (let currentPrice = current pd;
                        stopPercentage =
                          (if profile = ''falcodelloscalping'' then 0.005
                           else if profile = ''serpentedelloswingtrading'' \<or> profile = ''swing''
                             then 0.02
                           else if profile = ''orsodellpositiontrading'' \<or> profile = ''position''
                             then 0.05
                           else if profile = ''tartarugadell'investimento''
                                   \<or> profile = ''longterm''
                             then 0.1
                           else 0.03);
                        percentStop =
                          (case dir of
                             long \<Rightarrow> currentPrice * (1 - stopPercentage)
                           | short \<Rightarrow> currentPrice * (1 + stopPercentage))
                    in [\<lparr> cValue = percentStop, cWeight = 1, cType = ''percent'' \<rparr>]));
          possibleStops = levelStops @ atrStops @ maStops @ percentStops
      in if possibleStops = [] then None
         else (case priceData ti of
                 None \<Rightarrow> None
               | Some pd \<Rightarrow> selectBestStop (current pd) possibleStops))"

text \<open>The object returned by \<^verbatim>\<open>calculateOptimalTargetPrice\<close>; its \<^verbatim>\<open>value\<close> may be undefined.\<close>

record targetResult =
  targetValue :: "real option"

text \<open>
  The four \<^verbatim>\<open>reduce\<close> calls that pick the target. The accumulator \<open>None\<close> is the initial
  value of the source: \<^verbatim>\<open>null\<close>, \<^verbatim>\<open>{score: -Infinity}\<close> or \<^verbatim>\<open>{distance: -Infinity}\<close>. The
  current price is not 0 here and no candidate equals it, so no distance is 0.
\<close>

definition pickScalping :: "real \<Rightarrow> candidate list \<Rightarrow> candidate option" where
  "pickScalping currentPrice potentialTargets =
     foldl (\<lambda>best target.
              (let distance = \<bar>(cValue target - currentPrice) / currentPrice\<bar>
               in case best of
                    None \<Rightarrow> Some target
                  | Some b \<Rightarrow>
                      if distance < 0.02 \<and> cWeight target > cWeight b then Some target
                      else Some b))
       None potentialTargets"

definition pickSwing :: "real \<Rightarrow> candidate list \<Rightarrow> (candidate \<times> real) option" where
  "pickSwing currentPrice potentialTargets =
     foldl (\<lambda>best target.
              (let targetScore =
                     cWeight target * (1 / \<bar>(cValue target - currentPrice) / currentPrice\<bar>)
               in case best of
                    None \<Rightarrow> Some (target, targetScore)
                  | Some (b, bestScore) \<Rightarrow>
                      if targetScore > bestScore then Some (target, targetScore)
                      else Some (b, bestScore)))
       None potentialTargets"

definition pickPosition :: "real \<Rightarrow> candidate list \<Rightarrow> (candidate \<times> real) option" where
  "pickPosition currentPrice potentialTargets =
     foldl (\<lambda>best target.
              (let distance = \<bar>(cValue target - currentPrice) / currentPrice\<bar>
               in if cWeight target \<ge> 1.5
                     \<and> (case best of None \<Rightarrow> True | Some (b, bestDistance) \<Rightarrow> distance > bestDistance)
                  then Some (target, distance)
                  else best))
       None potentialTargets"

definition pickDefault :: "candidate list \<Rightarrow> candidate option" where
  "pickDefault potentialTargets =
     foldl (\<lambda>best target.
              (case best of
                 None \<Rightarrow> Some target
               | Some b \<Rightarrow> if cWeight target > cWeight b then Some target else Some b))
       None potentialTargets"

definition fibonacciCandidates :: "fibonacciTargets option \<Rightarrow> candidate list" where
  "fibonacciCandidates fib =
     (case fib of
        None \<Rightarrow> []
      | Some f \<Rightarrow>
          [\<lparr> cValue = target1 f, cWeight = 1, cType = ''fib38'' \<rparr>,
           \<lparr> cValue = target2 f, cWeight = 2, cType = ''fib61'' \<rparr>,
           \<lparr> cValue = target3 f, cWeight = 1.5, cType = ''fib100'' \<rparr>])"

definition calculateOptimalTargetPrice ::
    "technicalIndicators \<Rightarrow> tradeDirection \<Rightarrow> string \<Rightarrow> targetResult option" where
  "calculateOptimalTargetPrice ti dir profileType =
     (let profile = normalizeProfile profileType
      in case priceData ti of
           None \<Rightarrow> None
         | Some pd \<Rightarrow>
             if current pd = 0 then None
             else
               (let currentPrice = current pd;
                    levelTargets =
                      (case dir of
                         long \<Rightarrow> pushIfTruthy (findNearestResistanceAbove ti) 3 ''resistance''
                       | short \<Rightarrow> pushIfTruthy (findNearestSupportBelow ti) 3 ''support'');
                    fibTargets =
                      (case dir of
                         long \<Rightarrow> fibonacciCandidates (calculateFibonacciTargetsLong ti)
                       | short \<Rightarrow> fibonacciCandidates (calculateFibonacciTargetsShort ti));
                    targetPercentage =
                      (if profile = ''falcodelloscalping'' then 0.01
                       else if profile = ''serpentedelloswingtrading'' \<or> profile = ''swing''
                         then 0.03
                       else if profile = ''orsodellpositiontrading'' \<or> profile = ''position''
                         then 0.08
                       else if profile = ''tartarugadell'investimento'' \<or> profile = ''longterm''
                         then 0.15
                       else 0.05);
                    percentTarget =
                      (case dir of
                         long \<Rightarrow> currentPrice * (1 + targetPercentage)
                       | short \<Rightarrow> currentPrice * (1 - targetPercentage));
                    potentialTargets =
                      levelTargets @ fibTargets
                        @ [\<lparr> cValue = percentTarget, cWeight = 1, cType = ''percent'' \<rparr>]
                in if potentialTargets = []
                   then Some \<lparr> targetValue =
                                 Some (case dir of long \<Rightarrow> currentPrice * 1.05
                                                 | short \<Rightarrow> currentPrice * 0.95) \<rparr>
                   else if profile = ''falcodelloscalping''
                     then Some \<lparr> targetValue =
                                   map_option cValue (pickScalping currentPrice potentialTargets) \<rparr>
                   else if profile = ''serpentedelloswingtrading'' \<or> profile = ''swing''
                     then Some \<lparr> targetValue =
                                   map_option (cValue \<circ> fst)
                                     (pickSwing currentPrice potentialTargets) \<rparr>
                   else if profile = ''orsodellpositiontrading'' \<or> profile = ''position''
                           \<or> profile = ''tartarugadell'investimento'' \<or> profile = ''longterm''
                     then Some \<lparr> targetValue =
                                   map_option (cValue \<circ> fst)
                                     (pickPosition currentPrice potentialTargets) \<rparr>
                   else Some \<lparr> targetValue =
                                 map_option cValue (pickDefault potentialTargets) \<rparr>))"

text \<open>\<^verbatim>\<open>calculateRiskRewardRatio(entryPrice, targetPrice, stopLoss)\<close>; \<open>None\<close> is \<^verbatim>\<open>null\<close>.\<close>

definition calculateRiskRewardRatio :: "real \<Rightarrow> real \<Rightarrow> real \<Rightarrow> real option" where
  "calculateRiskRewardRatio entryPrice targetPrice stopLoss =
     (if entryPrice = 0 \<or> targetPrice = 0 \<or> stopLoss = 0 then None
      else (let risk = \<bar>entryPrice - stopLoss\<bar>;
                reward = \<bar>targetPrice - entryPrice\<bar>
            in if risk = 0 then None else Some (reward / risk)))"

section \<open>Order generation\<close>

datatype orderType = BUY | SELL

definition determineOrderType :: "string \<Rightarrow> orderType option" where
  "determineOrderType recommendation =
     (if recommendation = [] then None
      else (let rec = toLowerCase recommendation
            in if str_includes rec ''compra'' then Some BUY
               else if str_includes rec ''vendi'' then Some SELL
               else None))"

text \<open>
  \<^verbatim>\<open>calculateEntryPrice\<close> reads \<^verbatim>\<open>technicalIndicators.priceData.current\<close> unguarded: without
  \<^verbatim>\<open>priceData\<close> it throws.
\<close>

definition calculateEntryPrice ::
    "technicalIndicators \<Rightarrow> orderType \<Rightarrow> string \<Rightarrow> error + real" where
  "calculateEntryPrice ti ot profileName =
     (case priceData ti of
        None \<Rightarrow> Inl TypeError
      | Some pd \<Rightarrow>
          (let currentPrice = current pd;
               profile = normalizeProfile profileName;
               deviation =
                 (if profile = ''falcodelloscalping'' then currentPrice * 0.0015
                  else if profile = ''serpentedelloswingtrading''
                          \<or> profile = ''serpenteoftheswingtrading'' \<or> profile = ''swing''
                    then currentPrice * 0.005
                  else if profile = ''orsodellpositiontrading''
                          \<or> profile = ''orsodelpositiontrading'' \<or> profile = ''position''
                          \<or> profile = ''tartarugadell'investimento''
                          \<or> profile = ''tartarugadellinvestimento'' \<or> profile = ''longterm''
                    then currentPrice * 0.01
                  else currentPrice * 0.003);
               entry = (case ot of BUY \<Rightarrow> currentPrice - deviation
                                | SELL \<Rightarrow> currentPrice + deviation)
           in Inr (Math_round (entry * 100) / 100)))"

text \<open>
  The arithmetic of \<^verbatim>\<open>calculateEntryPrice\<close> as the code performs it, for a current price
  and the deviation factor of the profile. Over exact reals \<open>entry * 100\<close> can be a tie
  that the doubles miss, and the two roundings then differ by a cent.
\<close>

definition entryPriceDouble :: "real \<Rightarrow> real \<Rightarrow> orderType \<Rightarrow> real" where
  "entryPriceDouble currentPrice factor ot =
     (let deviation = toDouble (currentPrice * factor);
          entry = (case ot of BUY \<Rightarrow> toDouble (currentPrice - deviation)
                            | SELL \<Rightarrow> toDouble (currentPrice + deviation))
      in toDouble (Math_round (toDouble (entry * 100)) / 100))"

definition getMinimumRiskRewardRatio :: "string \<Rightarrow> real" where
  "getMinimumRiskRewardRatio profileName =
     (let profile = normalizeProfile profileName
      in if profile = ''falcodelloscalping'' then 1.2
         else if profile = ''serpentedelloswingtrading''
                 \<or> profile = ''serpenteoftheswingtrading'' \<or> profile = ''swing''
           then 1.5
         else if profile = ''orsodellpositiontrading''
                 \<or> profile = ''orsodelpositiontrading'' \<or> profile = ''position''
           then 2.0
         else if profile = ''tartarugadell'investimento''
                 \<or> profile = ''tartarugadellinvestimento'' \<or> profile = ''longterm''
           then 2.5
         else 1.5)"

definition getConfidenceLevel :: "string \<Rightarrow> confidence" where
  "getConfidenceLevel recommendation =
     (if str_includes (toLowerCase recommendation) ''forte'' then Alta else Media)"

record tradingProfile =
  name :: string

record analysisData =
  symbol :: string
  technicalIndicators :: technicalIndicators
  tradingProfile :: tradingProfile

text \<open>
  The \<^verbatim>\<open>message\<close> of a rejected order, by its template. The risk/reward message cites
  \<^verbatim>\<open>riskRewardRatio.toFixed(2)\<close> and the minimum.
\<close>

datatype orderMessage =
    NoClearDirection
  | InvalidPriceLevels
  | RiskRewardBelowMinimum real real

text \<open>
  The numeric and enumerated fields of a complete order. The expiry date, the MT4 comment
  and command and the description are dates and formatted text, and are left out;
  \<^verbatim>\<open>symbol\<close>, \<^verbatim>\<open>orderType\<close>, \<^verbatim>\<open>confidence\<close> and \<^verbatim>\<open>tradingProfile\<close> are named
  \<open>orderSymbol\<close>, \<open>orderKind\<close>, \<open>orderConfidence\<close> and \<open>orderProfile\<close>.
\<close>

record orderFields =
  orderSymbol :: string
  orderKind :: orderType
  entryPrice :: real
  stopLoss :: real
  targetPrice :: real
  positionSize :: real
  riskRewardRatio :: real
  orderConfidence :: confidence
  orderProfile :: string

text \<open>
  The object returned by \<^verbatim>\<open>generateMT4Order\<close>: a rejected order has \<^verbatim>\<open>valid\<close> and
  \<^verbatim>\<open>message\<close>, a complete one \<^verbatim>\<open>valid\<close> and its fields, here \<open>details\<close>.
\<close>

record mt4Order =
  valid :: bool
  message :: "orderMessage option"
  details :: "orderFields option"

definition rejected :: "orderMessage \<Rightarrow> mt4Order" where
  "rejected m = \<lparr> valid = False, message = Some m, details = None \<rparr>"

text \<open>
  \<^verbatim>\<open>generateMT4Order(analysisData, recommendation, accountInfo)\<close>. Where the ratio is
  \<^verbatim>\<open>null\<close> (entry equal to stop), \<^verbatim>\<open>null < minimumRR\<close> holds and building the message
  calls \<^verbatim>\<open>toFixed\<close> on \<^verbatim>\<open>null\<close>, which throws. \<^verbatim>\<open>moneySettings.riskPerTrade\<close> is not a
  key of the settings, so the third argument of \<^verbatim>\<open>calculatePositionSize\<close> is undefined.
  \<^verbatim>\<open>accountInfo.balance\<close> and \<^verbatim>\<open>technicalIndicators.volatility.value\<close> are read unguarded.
\<close>

definition generateMT4Order ::
    "analysisData \<Rightarrow> string \<Rightarrow> accountInfo option \<Rightarrow> error + mt4Order" where
  "generateMT4Order d recommendation acct =
     (let ti = technicalIndicators d;
          profileName = name (tradingProfile d)
      in case determineOrderType recommendation of
           None \<Rightarrow> Inr (rejected NoClearDirection)
         | Some ot \<Rightarrow>
             (case calculateEntryPrice ti ot profileName of
                Inl e \<Rightarrow> Inl e
              | Inr entry \<Rightarrow>
                  (let dir = (case ot of BUY \<Rightarrow> long | SELL \<Rightarrow> short);
                       stop = calculateOptimalStopLoss ti dir profileName;
                       target =
                         (case calculateOptimalTargetPrice ti dir profileName of
                            None \<Rightarrow> None
                          | Some r \<Rightarrow> targetValue r)
                   in case (stop, target) of
                        (Some stopV, Some targetV) \<Rightarrow>
                          if entry = 0 \<or> stopV = 0 \<or> targetV = 0
                          then Inr (rejected InvalidPriceLevels)
                          else
                            (case calculateRiskRewardRatio entry targetV stopV of
                               None \<Rightarrow> Inl TypeError
                             | Some ratio \<Rightarrow>
                                 (let minimumRR = getMinimumRiskRewardRatio profileName
                                  in if ratio < minimumRR
                                     then Inr (rejected
                                            (RiskRewardBelowMinimum (toFixed2 ratio) minimumRR))
                                     else
                                       (case (acct, volatility ti) of
                                          (Some a, Some v) \<Rightarrow>
                                            (let risk = \<bar>entry - stopV\<bar> / entry;
                                                 size =
                                                   calculatePositionSize (Some (balance a))
                                                     (Some risk) None (Some (volatilityValue v))
                                             in Inr \<lparr> valid = True, message = None,
                                                      details = Some
                                                        \<lparr> orderSymbol = symbol d,
                                                          orderKind = ot,
                                                          entryPrice = entry,
                                                          stopLoss = stopV,
                                                          targetPrice = targetV,
                                                          positionSize = size,
                                                          riskRewardRatio = ratio,
                                                          orderConfidence =
                                                            getConfidenceLevel recommendation,
                                                          orderProfile = profileName \<rparr> \<rparr>)
                                        | _ \<Rightarrow> Inl TypeError)))
                      | _ \<Rightarrow> Inr (rejected InvalidPriceLevels))))"

text \<open>
  \<^verbatim>\<open>validateOrderData(order)\<close>, the repository's own check of a generated order, on the
  fields of a complete order. The \<^verbatim>\<open>isNaN\<close> tests never fire on numbers.
\<close>

definition validateOrderData :: "orderFields \<Rightarrow> bool" where
  "validateOrderData f =
     (if orderSymbol f = [] \<or> entryPrice f = 0 \<or> stopLoss f = 0 \<or> targetPrice f = 0
         \<or> positionSize f = 0
        then False
      else if positionSize f \<le> 0 then False
      else if (orderKind f = BUY \<and> stopLoss f \<ge> entryPrice f)
              \<or> (orderKind f = SELL \<and> stopLoss f \<le> entryPrice f)
        then False
      else True)"

text \<open>
  Example inputs: a price of 1.004 with a support at 1.002, for the scalping profile; a
  price of 100 with a resistance at 120; and a price of 100 with a support at 99.
\<close>

definition snapshotAt :: "real \<Rightarrow> real list \<Rightarrow> real list \<Rightarrow> technicalIndicators" where
  "snapshotAt price sups ress =
     \<lparr> priceData = Some \<lparr> current = price, change = 0 \<rparr>,
       movingAverages = None, momentum = None,
       volatility = Some \<lparr> volatilityValue = 0, bollingerUpper = None,
                           bollingerMiddle = None, bollingerLower = None \<rparr>,
       trend = None,
       levels = Some \<lparr> resistances = ress, supports = sups \<rparr>,
       volume = None \<rparr>"

definition analysisOf :: "technicalIndicators \<Rightarrow> string \<Rightarrow> analysisData" where
  "analysisOf ti profileName =
     \<lparr> symbol = ''EURUSD'', technicalIndicators = ti,
       tradingProfile = \<lparr> name = profileName \<rparr> \<rparr>"

definition scalpSnapshot :: technicalIndicators where
  "scalpSnapshot = snapshotAt 1.004 [1.002] []"

definition resistanceSnapshot :: technicalIndicators where
  "resistanceSnapshot = snapshotAt 100 [] [120]"

definition tieSnapshot :: technicalIndicators where
  "tieSnapshot = snapshotAt 100 [99] []"

section \<open>Properties\<close>

subsection \<open>Recommendation label\<close>

text \<open>
  C8. The label follows the thresholds \<open>> 7\<close> Compra Forte, \<open>> 3\<close> Compra, \<open>> -3\<close>
  Mantieni, \<open>> -7\<close> Vendi, otherwise Vendi Forte, and it is monotone: for scores
  \<open>s1 \<le> s2\<close> the label at \<open>s2\<close> is never nearer the Sell end than the label at \<open>s1\<close>.
\<close>

theorem determineRecommendation_monotone:
  "(determineRecommendation s = CompraForte \<longleftrightarrow> 7 < s)
   \<and> (determineRecommendation s = Compra \<longleftrightarrow> 3 < s \<and> s \<le> 7)
   \<and> (determineRecommendation s = Mantieni \<longleftrightarrow> - 3 < s \<and> s \<le> 3)
   \<and> (determineRecommendation s = Vendi \<longleftrightarrow> - 7 < s \<and> s \<le> - 3)
   \<and> (determineRecommendation s = VendiForte \<longleftrightarrow> s \<le> - 7)
   \<and> (s1 \<le> s2 \<longrightarrow>
        labelRank (determineRecommendation s1) \<le> labelRank (determineRecommendation s2))"
  by (simp add: determineRecommendation_def)

theorem determineRecommendation_monotone_witness:
  "(2::real) \<le> 8
   \<and> labelRank (determineRecommendation 2) \<le> labelRank (determineRecommendation 8)
   \<and> determineRecommendation 2 = Mantieni \<and> determineRecommendation 8 = CompraForte"
  using determineRecommendation_monotone [of 8 2 8]
  by (simp add: determineRecommendation_def)

subsection \<open>Position size\<close>

lemma checkedBalance_pos: "0 < checkedBalance b"
  by (simp add: checkedBalance_def split: option.split)

lemma maxSize_500: "maxSize b = 500"
  using checkedBalance_pos [of b]
  by (simp add: maxSize_def estimatedPipValue_def Let_def)

text \<open>The balance cancels against the unit-risk estimate.\<close>

lemma basePositionSize_eq:
  "basePositionSize b r m v =
     min (checkedRiskPercent r) (checkedMaxRisk m) * 10000 * volatilityFactor v"
  using checkedBalance_pos [of b]
  by (simp add: basePositionSize_def estimatedPipValue_def Let_def)

lemma volatilityFactor_bounds: "volatilityFactor v \<le> 1.2" "0 < volatilityFactor v"
  by (simp_all add: volatilityFactor_def Let_def)

lemma basePositionSize_le_240: "basePositionSize (Some 10000) r (Some 0.02) v \<le> 240"
proof -
  have "min (checkedRiskPercent r) (checkedMaxRisk (Some 0.02)) \<le> 0.02"
    by (simp add: checkedMaxRisk_def)
  moreover have "0 < min (checkedRiskPercent r) (checkedMaxRisk (Some 0.02))"
    by (simp add: checkedMaxRisk_def checkedRiskPercent_def split: option.split)
  ultimately have
    "min (checkedRiskPercent r) (checkedMaxRisk (Some 0.02)) * volatilityFactor v \<le> 0.02 * 1.2"
    using volatilityFactor_bounds [of v] by (intro mult_mono) simp_all
  then show ?thesis by (simp add: basePositionSize_eq algebra_simps)
qed

lemma round_hundredths_le_240: "x \<le> 240 \<Longrightarrow> Math_round (x * 100) / 100 \<le> 240"
  unfolding Math_round_def by (simp add: field_simps)

text \<open>
  C6, as stated, asks for inputs with balance 10000 and \<open>maxRiskPerTrade = 0.02\<close> whose
  size before clamping exceeds the ceiling. There are none: the size before clamping is at
  most 240 and the ceiling is 500.
\<close>

theorem calculatePositionSize_clamp_counterexample:
  "\<not> (\<exists>riskPercent vol.
          basePositionSize (Some 10000) riskPercent (Some 0.02) vol
            > maxSize (Some 10000))"
proof
  assume "\<exists>riskPercent vol.
            basePositionSize (Some 10000) riskPercent (Some 0.02) vol
              > maxSize (Some 10000)"
  then obtain r v where "basePositionSize (Some 10000) r (Some 0.02) v > 500"
    by (auto simp: maxSize_500)
  with basePositionSize_le_240 [of r v] show False by simp
qed

text \<open>
  C6, amended. With balance 10000 and \<open>maxRiskPerTrade = 0.02\<close> the size before clamping
  is at most 240, below the ceiling of 500, so the clamp never binds and the result is the
  size rounded to two decimals. For any arguments, when the rounded size does exceed the
  ceiling, the result is the ceiling.
\<close>

theorem calculatePositionSize_clamp:
  "basePositionSize (Some 10000) r (Some 0.02) v \<le> 240
   \<and> maxSize (Some 10000) = 500
   \<and> calculatePositionSize (Some 10000) r (Some 0.02) v =
       Math_round (basePositionSize (Some 10000) r (Some 0.02) v * 100) / 100
   \<and> (Math_round (basePositionSize b r' m v' * 100) / 100 > maxSize b \<longrightarrow>
        calculatePositionSize b r' m v' = maxSize b)"
  using round_hundredths_le_240 [OF basePositionSize_le_240 [of r v]]
        basePositionSize_le_240 [of r v]
  by (simp add: calculatePositionSize_def maxSize_500 Let_def)

theorem calculatePositionSize_clamp_witness:
  "Math_round (basePositionSize (Some 10000) (Some 0.1) (Some 0.1) (Some 15) * 100) / 100
     > maxSize (Some 10000)
   \<and> calculatePositionSize (Some 10000) (Some 0.1) (Some 0.1) (Some 15) = 500
   \<and> calculatePositionSize (Some 10000) (Some 0.015) (Some 0.02) (Some 30) = 120"
  using calculatePositionSize_clamp
          [of "Some 0.015" "Some 30" "Some 10000" "Some 0.1" "Some 0.1" "Some 15"]
  by (simp add: maxSize_500 basePositionSize_eq checkedRiskPercent_def checkedMaxRisk_def
      volatilityFactor_def Math_round_def)

text \<open>
  Over exact reals the balance cancels and the ceiling is exactly 500. The doubles of the
  code only approximate this, as the next subsection shows.
\<close>

lemma calculatePositionSize_exact:
  "(0 < b1 \<and> 0 < b2 \<longrightarrow>
      calculatePositionSize (Some b1) r m v = calculatePositionSize (Some b2) r m v)
   \<and> calculatePositionSize b r m v \<le> 500"
  by (simp add: calculatePositionSize_def basePositionSize_eq maxSize_500 Let_def)

subsection \<open>Position size in doubles\<close>

text \<open>Evaluation of \<open>toDouble\<close> on numerals.\<close>

lemma scaleAndRound_unfold:
  "scaleAndRound n x =
     (if n = 0 then x
      else if x < 2 ^ 52 then scaleAndRound (n - 1) (x * 2) / 2
      else if 2 ^ 53 \<le> x then scaleAndRound (n - 1) (x / 2) * 2
      else of_int (roundTiesToEven x))"
  by (cases n) simp_all

lemmas toDouble_eval = toDouble_def scaleAndRound_unfold roundTiesToEven_def

text \<open>One rounding moves a positive number by at most the fraction \<open>2\<^sup>-\<^sup>5\<^sup>3\<close> of it.\<close>

lemma roundTiesToEven_error: "\<bar>of_int (roundTiesToEven x) - x\<bar> \<le> 1 / 2"
  unfolding roundTiesToEven_def Let_def by (auto; linarith)

lemma scaleAndRound_error: "0 < x \<Longrightarrow> \<bar>scaleAndRound n x - x\<bar> \<le> x / 2 ^ 53"
proof (induction n arbitrary: x)
  case 0
  then show ?case by simp
next
  case (Suc n)
  consider "x < 2 ^ 52" | "2 ^ 53 \<le> x" | "2 ^ 52 \<le> x" "x < 2 ^ 53"
    by linarith
  then show ?case
  proof cases
    case 1
    from Suc.IH [of "x * 2"] Suc.prems
    have "\<bar>scaleAndRound n (x * 2) - x * 2\<bar> \<le> x * 2 / 2 ^ 53" by simp
    then have "\<bar>scaleAndRound n (x * 2) / 2 - x\<bar> \<le> x / 2 ^ 53" by (simp add: field_simps)
    with 1 show ?thesis by simp
  next
    case 2
    from Suc.IH [of "x / 2"] Suc.prems
    have "\<bar>scaleAndRound n (x / 2) - x / 2\<bar> \<le> x / 2 / 2 ^ 53" by simp
    then have "\<bar>scaleAndRound n (x / 2) * 2 - x\<bar> \<le> x / 2 ^ 53" by (simp add: field_simps)
    moreover from 2 have "\<not> x < 2 ^ 52" by simp
    ultimately show ?thesis using 2 by simp
  next
    case 3
    have "(1 :: real) / 2 = 2 ^ 52 / 2 ^ 53" by simp
    also have "\<dots> \<le> x / 2 ^ 53" using 3(1) by (intro divide_right_mono) simp_all
    finally have "1 / 2 \<le> x / 2 ^ 53" .
    with roundTiesToEven_error [of x] have "\<bar>of_int (roundTiesToEven x) - x\<bar> \<le> x / 2 ^ 53"
      by linarith
    with 3 show ?thesis by simp
  qed
qed

lemma toDouble_error: "0 < x \<Longrightarrow> \<bar>toDouble x - x\<bar> \<le> x / 2 ^ 53"
  using scaleAndRound_error [of x 1100] by (simp add: toDouble_def)

lemma toDouble_bounds:
  assumes "0 < x"
  shows "x * (1 - 1 / 2 ^ 53) \<le> toDouble x" "toDouble x \<le> x * (1 + 1 / 2 ^ 53)"
proof -
  define d where "d = x / 2 ^ 53"
  have eq: "x * (1 - 1 / 2 ^ 53) = x - d" "x * (1 + 1 / 2 ^ 53) = x + d"
    by (simp_all add: algebra_simps d_def)
  from toDouble_error [OF assms] have "\<bar>toDouble x - x\<bar> \<le> d"
    by (simp only: d_def)
  then have "x - d \<le> toDouble x" "toDouble x \<le> x + d"
    by linarith+
  then show "x * (1 - 1 / 2 ^ 53) \<le> toDouble x" "toDouble x \<le> x * (1 + 1 / 2 ^ 53)"
    by (simp_all only: eq)
qed

lemma toDouble_pos: "0 < x \<Longrightarrow> 0 < toDouble x"
proof -
  assume x: "0 < x"
  have "0 < x * (1 - 1 / 2 ^ 53)" using x by simp
  with toDouble_bounds(1) [OF x] show ?thesis by linarith
qed

text \<open>Enough fuel: the scaling reaches the binade of 53-bit integers.\<close>

lemma scaleAndRound_up:
  "k < n \<Longrightarrow> 2 ^ 52 \<le> x * 2 ^ k \<Longrightarrow> x * 2 ^ k < 2 ^ 53
   \<Longrightarrow> scaleAndRound n x = of_int (roundTiesToEven (x * 2 ^ k)) / 2 ^ k"
proof (induction k arbitrary: n x)
  case 0
  then obtain n' where "n = Suc n'" by (cases n) auto
  with 0 show ?case by simp
next
  case (Suc k)
  then obtain n' where n: "n = Suc n'" and kn: "k < n'" by (cases n) auto
  have lt: "x * 2 ^ k < 2 ^ 52" using Suc.prems(3) by simp
  have "(0::real) < 2 ^ 52" by simp
  with Suc.prems(2) have "0 < x * 2 ^ Suc k" by linarith
  then have pos: "0 < x" by (simp add: zero_less_mult_iff)
  have "x * 1 \<le> x * 2 ^ k" using pos by (intro mult_left_mono) simp_all
  with lt have x: "x < 2 ^ 52" by simp
  from Suc.IH [OF kn, of "x * 2"] Suc.prems
  have "scaleAndRound n' (x * 2) = of_int (roundTiesToEven (x * 2 * 2 ^ k)) / 2 ^ k"
    by (simp add: mult.assoc)
  with x n show ?case by (simp add: mult.assoc)
qed

lemma scaleAndRound_down:
  "k < n \<Longrightarrow> 2 ^ 52 \<le> x / 2 ^ k \<Longrightarrow> x / 2 ^ k < 2 ^ 53
   \<Longrightarrow> scaleAndRound n x = of_int (roundTiesToEven (x / 2 ^ k)) * 2 ^ k"
proof (induction k arbitrary: n x)
  case 0
  then obtain n' where "n = Suc n'" by (cases n) auto
  with 0 show ?case by simp
next
  case (Suc k)
  then obtain n' where n: "n = Suc n'" and kn: "k < n'" by (cases n) auto
  have "2 ^ 53 \<le> x / 2 ^ k" using Suc.prems(2) by (simp add: field_simps)
  then have ge: "2 ^ 53 * 2 ^ k \<le> x" by (simp add: pos_le_divide_eq)
  have "(2::real) ^ 53 \<le> 2 ^ 53 * 2 ^ k" by simp
  from this ge have x: "2 ^ 53 \<le> x" by (rule order_trans)
  from Suc.IH [OF kn, of "x / 2"] Suc.prems
  have "scaleAndRound n' (x / 2) = of_int (roundTiesToEven (x / 2 / 2 ^ k)) * 2 ^ k"
    by (simp add: field_simps)
  with x n show ?case by (simp add: field_simps)
qed


text \<open>Relative error intervals through a rounding, a division and a scaling.\<close>

lemma toDouble_interval:
  assumes "0 < a" "0 < lo" "a * lo \<le> x \<and> x \<le> a * hi"
  shows "a * (lo * (1 - 1 / 2 ^ 53)) \<le> toDouble x \<and> toDouble x \<le> a * (hi * (1 + 1 / 2 ^ 53))"
proof -
  have "0 < a * lo" using assms by simp
  with assms(3) have x: "0 < x" by linarith
  have "a * lo * (1 - 1 / 2 ^ 53) \<le> x * (1 - 1 / 2 ^ 53)"
    using assms(3) by (intro mult_right_mono) simp_all
  with toDouble_bounds(1) [OF x] have l: "a * lo * (1 - 1 / 2 ^ 53) \<le> toDouble x"
    by (rule order_trans [rotated])
  have "x * (1 + 1 / 2 ^ 53) \<le> a * hi * (1 + 1 / 2 ^ 53)"
    using assms(3) by (intro mult_right_mono) simp_all
  with toDouble_bounds(2) [OF x] have h: "toDouble x \<le> a * hi * (1 + 1 / 2 ^ 53)"
    by (rule order_trans)
  from l h show ?thesis by (simp only: mult.assoc)
qed

lemma toDouble_exact_interval:
  assumes "0 < x"
  shows "x * (1 * (1 - 1 / 2 ^ 53)) \<le> toDouble x \<and> toDouble x \<le> x * (1 * (1 + 1 / 2 ^ 53))"
  by (rule toDouble_interval [OF assms]) simp_all

lemma divide_interval:
  fixes a b x y :: real
  assumes "0 < a" "0 < b" "0 < lo" "0 < lo'"
    and "a * lo \<le> x \<and> x \<le> a * hi" "b * lo' \<le> y \<and> y \<le> b * hi'"
  shows "a / b * (lo / hi') \<le> x / y \<and> x / y \<le> a / b * (hi / lo')"
proof -
  have p: "0 < a * lo" "0 < b * lo'" using assms by simp_all
  with assms have x: "0 < x" and y: "0 < y" by linarith+
  from x assms(5) have h: "0 \<le> a * hi" by linarith
  have "a * lo / (b * hi') \<le> x / y"
    using assms(5,6) x y by (intro frac_le) simp_all
  moreover have "x / y \<le> a * hi / (b * lo')"
    using assms(5,6) p(2) h by (intro frac_le) simp_all
  ultimately show ?thesis by simp
qed

lemma times_interval:
  fixes a c x :: real
  assumes "0 < c" "a * lo \<le> x \<and> x \<le> a * hi"
  shows "a * c * lo \<le> x * c \<and> x * c \<le> a * c * hi"
proof -
  have "a * lo * c \<le> x * c" "x * c \<le> a * hi * c"
    using assms by (simp_all add: mult_right_mono)
  then show ?thesis by (simp add: mult_ac)
qed

text \<open>The ceiling is 500 up to three roundings.\<close>

lemma double_constants:
  "toDouble (1 / 20) = 3602879701896397 / 72057594037927936"
  "toDouble (1 / 10000) = 7378697629483821 / 73786976294838206464"
  by (simp_all add: toDouble_eval)

lemma maxSizeDouble_bounds:
  assumes b: "0 < b"
  shows "500 - 1 / 2 ^ 42 \<le> maxSizeDouble (Some b) \<and> maxSizeDouble (Some b) \<le> 500 + 1 / 2 ^ 42"
proof -
  let ?A5 = "toDouble 0.05" and ?A1 = "toDouble 0.0001"
  have A: "0 < ?A5" "0 < ?A1" by (simp_all add: toDouble_pos)
  have a: "0 < b * ?A5" "0 < b * ?A1" using b A by simp_all
  note m0 = toDouble_exact_interval [OF a(1)]
  note pip = toDouble_exact_interval [OF a(2)]
  have q: "b * ?A5 / (b * ?A1) * (1 * (1 - 1 / 2 ^ 53) / (1 * (1 + 1 / 2 ^ 53)))
             \<le> toDouble (b * ?A5) / toDouble (b * ?A1)
           \<and> toDouble (b * ?A5) / toDouble (b * ?A1)
             \<le> b * ?A5 / (b * ?A1) * (1 * (1 + 1 / 2 ^ 53) / (1 * (1 - 1 / 2 ^ 53)))"
    by (rule divide_interval [OF a _ _ m0 pip]) simp_all
  have r: "0 < b * ?A5 / (b * ?A1)" by (rule divide_pos_pos [OF a])
  have mx: "b * ?A5 / (b * ?A1) * (1 * (1 - 1 / 2 ^ 53) / (1 * (1 + 1 / 2 ^ 53)) * (1 - 1 / 2 ^ 53))
             \<le> toDouble (toDouble (b * ?A5) / toDouble (b * ?A1))
           \<and> toDouble (toDouble (b * ?A5) / toDouble (b * ?A1))
             \<le> b * ?A5 / (b * ?A1) * (1 * (1 + 1 / 2 ^ 53) / (1 * (1 - 1 / 2 ^ 53)) * (1 + 1 / 2 ^ 53))"
    by (rule toDouble_interval [OF r _ q]) simp
  have c: "b * ?A5 / (b * ?A1) = ?A5 / ?A1" using b by simp
  have lo: "500 - 1 / 2 ^ 42
              \<le> ?A5 / ?A1 * (1 * (1 - 1 / 2 ^ 53) / (1 * (1 + 1 / 2 ^ 53)) * (1 - 1 / 2 ^ 53))"
    by (simp add: double_constants)
  have hi: "?A5 / ?A1 * (1 * (1 + 1 / 2 ^ 53) / (1 * (1 - 1 / 2 ^ 53)) * (1 + 1 / 2 ^ 53))
              \<le> 500 + 1 / 2 ^ 42"
    by (simp add: double_constants)
  have v: "maxSizeDouble (Some b) = toDouble (toDouble (b * ?A5) / toDouble (b * ?A1))"
    using b by (simp add: maxSizeDouble_def estimatedPipValueDouble_def checkedBalance_def)
  from mx have "?A5 / ?A1 * (1 * (1 - 1 / 2 ^ 53) / (1 * (1 + 1 / 2 ^ 53)) * (1 - 1 / 2 ^ 53))
                  \<le> maxSizeDouble (Some b)"
    and "maxSizeDouble (Some b)
           \<le> ?A5 / ?A1 * (1 * (1 + 1 / 2 ^ 53) / (1 * (1 - 1 / 2 ^ 53)) * (1 + 1 / 2 ^ 53))"
    by (simp_all only: c v)
  with lo hi show ?thesis by (meson order_trans)
qed


text \<open>
  The size before the rounding to cents, times 100 as \<^verbatim>\<open>Math.round\<close> receives it: within
  a relative error of \<open>2\<^sup>-\<^sup>5\<^sup>0\<close> of a quantity that does not mention the balance.
\<close>

lemma scaledSize_interval:
  assumes b: "0 < b" and e: "0 < e" and vf: "0 < vf"
  shows "e / toDouble 0.0001 * vf * 100 * (1 - 1 / 2 ^ 50)
           \<le> toDouble (toDouble (toDouble (toDouble (b * e) / toDouble (b * toDouble 0.0001)) * vf)
                          * 100)
         \<and> toDouble (toDouble (toDouble (toDouble (b * e) / toDouble (b * toDouble 0.0001)) * vf)
                       * 100)
           \<le> e / toDouble 0.0001 * vf * 100 * (1 + 1 / 2 ^ 50)"
proof -
  let ?A1 = "toDouble 0.0001"
  let ?l1 = "1 * (1 - 1 / 2 ^ 53) :: real" and ?h1 = "1 * (1 + 1 / 2 ^ 53) :: real"
  let ?l2 = "?l1 / ?h1 * (1 - 1 / 2 ^ 53)" and ?h2 = "?h1 / ?l1 * (1 + 1 / 2 ^ 53)"
  let ?l3 = "?l2 * (1 - 1 / 2 ^ 53)" and ?h3 = "?h2 * (1 + 1 / 2 ^ 53)"
  let ?l4 = "?l3 * (1 - 1 / 2 ^ 53)" and ?h4 = "?h3 * (1 + 1 / 2 ^ 53)"
  let ?q = "toDouble (toDouble (b * e) / toDouble (b * ?A1))"
  have A1: "0 < ?A1" by (simp add: toDouble_pos)
  have a: "0 < b * e" "0 < b * ?A1" using b e A1 by simp_all
  note ra = toDouble_exact_interval [OF a(1)]
  note pip = toDouble_exact_interval [OF a(2)]
  have q0: "b * e / (b * ?A1) * (?l1 / ?h1) \<le> toDouble (b * e) / toDouble (b * ?A1)
            \<and> toDouble (b * e) / toDouble (b * ?A1) \<le> b * e / (b * ?A1) * (?h1 / ?l1)"
    by (rule divide_interval [OF a _ _ ra pip]) simp_all
  have r: "0 < b * e / (b * ?A1)" by (rule divide_pos_pos [OF a])
  have q: "b * e / (b * ?A1) * ?l2 \<le> ?q \<and> ?q \<le> b * e / (b * ?A1) * ?h2"
    by (rule toDouble_interval [OF r _ q0]) simp
  note qv = times_interval [OF vf q]
  have r2: "0 < b * e / (b * ?A1) * vf" using r vf by simp
  have ps: "b * e / (b * ?A1) * vf * ?l3 \<le> toDouble (?q * vf)
            \<and> toDouble (?q * vf) \<le> b * e / (b * ?A1) * vf * ?h3"
    by (rule toDouble_interval [OF r2 _ qv]) simp
  have "(0::real) < 100" by simp
  note ps100 = times_interval [OF this ps]
  have r3: "0 < b * e / (b * ?A1) * vf * 100" using r2 by simp
  have y: "b * e / (b * ?A1) * vf * 100 * ?l4 \<le> toDouble (toDouble (?q * vf) * 100)
           \<and> toDouble (toDouble (?q * vf) * 100) \<le> b * e / (b * ?A1) * vf * 100 * ?h4"
    by (rule toDouble_interval [OF r3 _ ps100]) simp
  have c: "b * e / (b * ?A1) = e / ?A1" using b by simp
  have lo: "1 - 1 / 2 ^ 50 \<le> ?l4" and hi: "?h4 \<le> 1 + 1 / 2 ^ 50" by simp_all
  have Y: "0 \<le> e / ?A1 * vf * 100" using r3 unfolding c by simp
  from lo Y have "e / ?A1 * vf * 100 * (1 - 1 / 2 ^ 50) \<le> e / ?A1 * vf * 100 * ?l4"
    by (rule mult_left_mono)
  moreover from hi Y have "e / ?A1 * vf * 100 * ?h4 \<le> e / ?A1 * vf * 100 * (1 + 1 / 2 ^ 50)"
    by (rule mult_left_mono)
  moreover note y [unfolded c]
  ultimately show ?thesis by (meson order_trans)
qed


text \<open>The rounding to cents of a value of at most 50203 moves it by less than \<open>2\<^sup>-\<^sup>4\<^sup>3\<close>.\<close>

lemma toDouble_cents:
  assumes "0 \<le> m" "m \<le> 50203"
  shows "\<bar>toDouble (of_int m / 100) - of_int m / 100\<bar> \<le> 1 / 2 ^ 43"
proof (cases "m = 0")
  case True
  then show ?thesis by (simp add: toDouble_def)
next
  case False
  with assms have pos: "0 < (of_int m / 100 :: real)" by simp
  have "(of_int m :: real) \<le> 50203" using assms(2) by simp
  then have "(of_int m / 100 :: real) / 2 ^ 53 \<le> (50203 / 100) / 2 ^ 53"
    by (intro divide_right_mono) simp_all
  also have "\<dots> \<le> 1 / 2 ^ 43" by simp
  finally have "(of_int m / 100 :: real) / 2 ^ 53 \<le> 1 / 2 ^ 43" .
  with toDouble_error [OF pos] show ?thesis by (rule order_trans)
qed

lemma Math_round_close:
  assumes "y1 \<le> y2 + 1"
  shows "\<lfloor>y1 + 1 / 2 :: real\<rfloor> \<le> \<lfloor>y2 + 1 / 2\<rfloor> + 1"
  using assms by linarith

text \<open>
  Two scaled sizes near the same quantity round to cents that are at most one apart,
  unless both are beyond the ceiling.
\<close>

lemma size_difference:
  fixes y1 y2 Y mx1 mx2 :: real
  assumes Y: "0 < Y"
    and y1: "Y * (1 - 1 / 2 ^ 50) \<le> y1 \<and> y1 \<le> Y * (1 + 1 / 2 ^ 50)"
    and y2: "Y * (1 - 1 / 2 ^ 50) \<le> y2 \<and> y2 \<le> Y * (1 + 1 / 2 ^ 50)"
    and mx1: "500 - 1 / 2 ^ 42 \<le> mx1 \<and> mx1 \<le> 500 + 1 / 2 ^ 42"
    and mx2: "500 - 1 / 2 ^ 42 \<le> mx2 \<and> mx2 \<le> 500 + 1 / 2 ^ 42"
  shows "\<bar>min (toDouble (Math_round y1 / 100)) mx1 - min (toDouble (Math_round y2 / 100)) mx2\<bar>
           \<le> 1 / 100 + 1 / 2 ^ 40"
proof -
  define k :: real where "k = 1 / 2 ^ 40"
  define dl :: real where "dl = 1 / 2 ^ 42"
  define et :: real where "et = 1 / 2 ^ 43"
  define t where "t = Y * (1 / 2 ^ 50)"
  define m1 where "m1 = \<lfloor>y1 + 1 / 2\<rfloor>"
  define m2 where "m2 = \<lfloor>y2 + 1 / 2\<rfloor>"
  define x1 :: real where "x1 = of_int m1 / 100"
  define x2 :: real where "x2 = of_int m2 / 100"
  define p1 where "p1 = toDouble x1"
  define p2 where "p2 = toDouble x2"
  have small: "0 < k" "2 * dl \<le> k" "2 * et \<le> k" "dl \<le> 1"
    by (simp_all add: k_def dl_def et_def)
  have t: "0 \<le> t" "t \<le> Y / 4" using Y by (simp_all add: t_def)
  have eq: "Y * (1 - 1 / 2 ^ 50) = Y - t" "Y * (1 + 1 / 2 ^ 50) = Y + t"
    by (simp_all add: t_def algebra_simps)
  from y1 y2 have y: "Y - t \<le> y1" "y1 \<le> Y + t" "Y - t \<le> y2" "y2 \<le> Y + t"
    by (simp_all only: eq)
  from mx1 mx2 have mx: "500 - dl \<le> mx1" "mx1 \<le> 500 + dl" "500 - dl \<le> mx2" "mx2 \<le> 500 + dl"
    by (simp_all only: dl_def)
  have goal: "\<bar>min p1 mx1 - min p2 mx2\<bar> \<le> 1 / 100 + k"
  proof (cases "50200 < y1 \<and> 50200 < y2")
    case True
    have big: "501 \<le> toDouble (of_int m / 100)" if "50200 \<le> m" for m :: int
    proof -
      from that have "(50200 :: real) \<le> of_int m" by linarith
      then have x: "(502 :: real) \<le> of_int m / 100" by simp
      then have pos: "(0 :: real) < of_int m / 100" by linarith
      have "(501 :: real) \<le> 502 * (1 - 1 / 2 ^ 53)" by simp
      also have "\<dots> \<le> of_int m / 100 * (1 - 1 / 2 ^ 53)"
        using x by (intro mult_right_mono) simp_all
      also have "\<dots> \<le> toDouble (of_int m / 100)" by (rule toDouble_bounds(1) [OF pos])
      finally show ?thesis .
    qed
    from True have "50200 \<le> m1" "50200 \<le> m2"
      unfolding m1_def m2_def by (simp_all add: le_floor_iff)
    then have "501 \<le> p1" "501 \<le> p2"
      unfolding p1_def p2_def x1_def x2_def by (simp_all only: big)
    with mx small show ?thesis by linarith
  next
    case False
    then have "Y - t \<le> 50200" using y by linarith
    with t have Ysmall: "Y \<le> 70000" by linarith
    then have "t \<le> 70000 * (1 / 2 ^ 50)"
      unfolding t_def by (intro mult_right_mono) simp_all
    also have "\<dots> \<le> 1 / 4" by simp
    finally have t4: "t \<le> 1 / 4" .
    from y t4 have close: "y1 \<le> y2 + 1" "y2 \<le> y1 + 1" by linarith+
    from Math_round_close [OF close(1)] Math_round_close [OF close(2)]
    have m: "m1 \<le> m2 + 1" "m2 \<le> m1 + 1" by (simp_all only: m1_def m2_def)
    from False y t4 have ub: "y1 \<le> 50201" "y2 \<le> 50201" by linarith+
    then have "y1 + 1 / 2 < 50203" "y2 + 1 / 2 < 50203" by linarith+
    then have "m1 < 50203" "m2 < 50203"
      unfolding m1_def m2_def by (simp_all add: floor_less_iff)
    then have mu: "m1 \<le> 50203" "m2 \<le> 50203" by simp_all
    from y t Y have "0 \<le> y1" "0 \<le> y2" by linarith+
    then have "0 \<le> y1 + 1 / 2" "0 \<le> y2 + 1 / 2" by linarith+
    then have ml: "0 \<le> m1" "0 \<le> m2"
      unfolding m1_def m2_def by (simp_all add: zero_le_floor)
    from toDouble_cents [OF ml(1) mu(1)] toDouble_cents [OF ml(2) mu(2)]
    have p: "\<bar>p1 - x1\<bar> \<le> et" "\<bar>p2 - x2\<bar> \<le> et"
      by (simp_all only: p1_def p2_def x1_def x2_def et_def)
    from m have "(of_int m1 :: real) \<le> of_int m2 + 1" "(of_int m2 :: real) \<le> of_int m1 + 1"
      by linarith+
    then have x: "x1 \<le> x2 + 1 / 100" "x2 \<le> x1 + 1 / 100"
      by (simp_all add: x1_def x2_def field_simps)
    from p x mx small show ?thesis by linarith
  qed
  then show ?thesis
    by (simp only: p1_def p2_def x1_def x2_def m1_def m2_def k_def Math_round_def)
qed


text \<open>Evaluation at three balances.\<close>

lemma size_at_balance_7:
  "calculatePositionSizeDouble (Some 7) (Some (toDouble 0.1)) (Some (toDouble 0.1)) (Some 15)
     = 500 + 1 / 2 ^ 44"
proof -
  have r: "toDouble 0.1 = 3602879701896397 / 36028797018963968"
    by (simp add: toDouble_eval)
  have m: "toDouble 0.1 = 3602879701896397 / 36028797018963968"
    by (simp add: toDouble_eval)
  have pip: "estimatedPipValueDouble 7 = 6456360425798343 / 9223372036854775808"
    by (simp add: estimatedPipValueDouble_def toDouble_eval)
  have mx: "maxSizeDouble (Some 7) = 8796093022208001 / 17592186044416"
    by (simp add: maxSizeDouble_def checkedBalance_def pip toDouble_eval)
  have base: "basePositionSizeDouble (Some 7) (Some (3602879701896397 / 36028797018963968))
      (Some (3602879701896397 / 36028797018963968)) (Some 15) = 8796093022208001 / 8796093022208"
    by (simp add: basePositionSizeDouble_def checkedBalance_def checkedRiskPercentDouble_def
        checkedMaxRiskDouble_def volatilityFactorDouble_def pip toDouble_eval)
  have y: "toDouble (8796093022208001 / 8796093022208 * 100) = 6871947673600001 / 68719476736"
    by (simp add: toDouble_eval)
  have p: "toDouble (Math_round (6871947673600001 / 68719476736) / 100) = 1000"
    by (simp add: Math_round_def toDouble_eval)
  show ?thesis
    unfolding calculatePositionSizeDouble_def Let_def r m base y p mx by simp
qed

lemma size_at_balance_1000:
  "calculatePositionSizeDouble (Some 1000) (Some (toDouble 0.0033335)) (Some (toDouble 0.02)) (Some 15)
     = 2345390243441541 / 70368744177664"
proof -
  have r: "toDouble 0.0033335 = 7686527671213849 / 2305843009213693952"
    by (simp add: toDouble_eval)
  have m: "toDouble 0.02 = 5764607523034235 / 288230376151711744"
    by (simp add: toDouble_eval)
  have pip: "estimatedPipValueDouble 1000 = 3602879701896397 / 36028797018963968"
    by (simp add: estimatedPipValueDouble_def toDouble_eval)
  have mx: "maxSizeDouble (Some 1000) = 500"
    by (simp add: maxSizeDouble_def checkedBalance_def pip toDouble_eval)
  have base: "basePositionSizeDouble (Some 1000) (Some (7686527671213849 / 2305843009213693952))
      (Some (5764607523034235 / 288230376151711744)) (Some 15) = 2345742087162429 / 70368744177664"
    by (simp add: basePositionSizeDouble_def checkedBalance_def checkedRiskPercentDouble_def
        checkedMaxRiskDouble_def volatilityFactorDouble_def pip toDouble_eval)
  have y: "toDouble (2345742087162429 / 70368744177664 * 100) = 7330444022382591 / 2199023255552"
    by (simp add: toDouble_eval)
  have p: "toDouble (Math_round (7330444022382591 / 2199023255552) / 100) = 2345390243441541 / 70368744177664"
    by (simp add: Math_round_def toDouble_eval)
  show ?thesis
    unfolding calculatePositionSizeDouble_def Let_def r m base y p mx by simp
qed

lemma size_at_balance_2500:
  "calculatePositionSizeDouble (Some 2500) (Some (toDouble 0.0033335)) (Some (toDouble 0.02)) (Some 15)
     = 1173046965441659 / 35184372088832"
proof -
  have r: "toDouble 0.0033335 = 7686527671213849 / 2305843009213693952"
    by (simp add: toDouble_eval)
  have m: "toDouble 0.02 = 5764607523034235 / 288230376151711744"
    by (simp add: toDouble_eval)
  have pip: "estimatedPipValueDouble 2500 = 1 / 4"
    by (simp add: estimatedPipValueDouble_def toDouble_eval)
  have mx: "maxSizeDouble (Some 2500) = 500"
    by (simp add: maxSizeDouble_def checkedBalance_def pip toDouble_eval)
  have base: "basePositionSizeDouble (Some 2500) (Some (7686527671213849 / 2305843009213693952))
      (Some (5764607523034235 / 288230376151711744)) (Some 15) = 4691484174324859 / 140737488355328"
    by (simp add: basePositionSizeDouble_def checkedBalance_def checkedRiskPercentDouble_def
        checkedMaxRiskDouble_def volatilityFactorDouble_def pip toDouble_eval)
  have y: "toDouble (4691484174324859 / 140737488355328 * 100) = 6667 / 2"
    by (simp add: toDouble_eval)
  have p: "toDouble (Math_round (6667 / 2) / 100) = 1173046965441659 / 35184372088832"
    by (simp add: Math_round_def toDouble_eval)
  show ?thesis
    unfolding calculatePositionSizeDouble_def Let_def r m base y p mx by simp
qed

lemma cents_values:
  "toDouble 33.33 = 2345390243441541 / 70368744177664"
  "toDouble 33.34 = 1173046965441659 / 35184372088832"
  by (simp_all add: toDouble_eval)

text \<open>
  C10, as stated, fails in the doubles of the code. With balance 7 and a risk of 0.1 the
  ceiling itself is \<open>500 + 2\<^sup>-\<^sup>4\<^sup>4\<close>, printed 500.00000000000006, and it is the value
  returned; and with a risk of 0.0033335 the balance 1000 gives 33.33 where the balance
  2500 gives 33.34.
\<close>

theorem calculatePositionSizeDouble_counterexample:
  "calculatePositionSizeDouble (Some 7) (Some (toDouble 0.1)) (Some (toDouble 0.1)) (Some 15)
     = 500 + 1 / 2 ^ 44
   \<and> calculatePositionSizeDouble (Some 7) (Some (toDouble 0.1)) (Some (toDouble 0.1)) (Some 15)
     > 500
   \<and> calculatePositionSizeDouble (Some 1000) (Some (toDouble 0.0033335)) (Some (toDouble 0.02))
       (Some 15) = toDouble 33.33
   \<and> calculatePositionSizeDouble (Some 2500) (Some (toDouble 0.0033335)) (Some (toDouble 0.02))
       (Some 15) = toDouble 33.34
   \<and> toDouble 33.33 < toDouble 33.34"
  unfolding size_at_balance_7 size_at_balance_1000 size_at_balance_2500 cents_values by simp

lemma effectiveRisk_pos:
  "0 < min (checkedRiskPercentDouble r) (checkedMaxRiskDouble m)"
proof -
  have "0 < checkedRiskPercentDouble r"
    by (auto simp: checkedRiskPercentDouble_def toDouble_pos split: option.split)
  moreover have "0 < checkedMaxRiskDouble m"
    by (auto simp: checkedMaxRiskDouble_def toDouble_pos split: option.split)
  ultimately show ?thesis by simp
qed

lemma volatilityFactorDouble_pos: "0 < volatilityFactorDouble v"
  by (simp add: volatilityFactorDouble_def Let_def toDouble_pos)

text \<open>
  C10, amended. For balances between \<open>2\<^sup>-\<^sup>5\<^sup>0\<^sup>0\<close> and \<open>2\<^sup>5\<^sup>0\<^sup>0\<close>, where no intermediate
  result leaves the range of the doubles, the size returned is at most \<open>500 + 2\<^sup>-\<^sup>4\<^sup>2\<close>, and
  two calls that differ only in the balance return sizes that differ by at most
  \<open>0.01 + 2\<^sup>-\<^sup>4\<^sup>0\<close>: one step of the rounding to two decimals.
\<close>

theorem calculatePositionSizeDouble_balance:
  assumes "1 / 2 ^ 500 \<le> b1" "b1 \<le> 2 ^ 500" "1 / 2 ^ 500 \<le> b2" "b2 \<le> 2 ^ 500"
  shows "calculatePositionSizeDouble (Some b1) r m v \<le> 500 + 1 / 2 ^ 42
         \<and> \<bar>calculatePositionSizeDouble (Some b1) r m v
              - calculatePositionSizeDouble (Some b2) r m v\<bar> \<le> 1 / 100 + 1 / 2 ^ 40"
proof -
  let ?e = "min (checkedRiskPercentDouble r) (checkedMaxRiskDouble m)"
  let ?vf = "volatilityFactorDouble v"
  have z: "(0 :: real) < 1 / 2 ^ 500" by simp
  have b: "0 < b1" "0 < b2"
    by (rule less_le_trans [OF z assms(1)], rule less_le_trans [OF z assms(3)])
  note e = effectiveRisk_pos [of r m] and vf = volatilityFactorDouble_pos [of v]
  have "0 < toDouble 0.0001" by (simp add: toDouble_pos)
  with e vf have Y: "0 < ?e / toDouble 0.0001 * ?vf * 100" by simp
  have form: "calculatePositionSizeDouble (Some b) r m v =
      min (toDouble (Math_round
             (toDouble (toDouble (toDouble (toDouble (b * ?e) / toDouble (b * toDouble 0.0001))
                                    * ?vf) * 100)) / 100))
          (maxSizeDouble (Some b))" if "0 < b" for b
    using that
    by (simp add: calculatePositionSizeDouble_def basePositionSizeDouble_def
        estimatedPipValueDouble_def checkedBalance_def Let_def)
  have d: "\<bar>calculatePositionSizeDouble (Some b1) r m v
            - calculatePositionSizeDouble (Some b2) r m v\<bar> \<le> 1 / 100 + 1 / 2 ^ 40"
    unfolding form [OF b(1)] form [OF b(2)]
    by (rule size_difference [OF Y scaledSize_interval [OF b(1) e vf]
          scaledSize_interval [OF b(2) e vf] maxSizeDouble_bounds [OF b(1)]
          maxSizeDouble_bounds [OF b(2)]])
  have "calculatePositionSizeDouble (Some b1) r m v \<le> maxSizeDouble (Some b1)"
    unfolding form [OF b(1)] by (rule min.cobounded2)
  also have "\<dots> \<le> 500 + 1 / 2 ^ 42" using maxSizeDouble_bounds [OF b(1)] by (rule conjunct2)
  finally show ?thesis using d by (rule conjI)
qed

theorem calculatePositionSizeDouble_balance_witness:
  "(1 / 2 ^ 500 :: real) \<le> 1000 \<and> (1000 :: real) \<le> 2 ^ 500
   \<and> (1 / 2 ^ 500 :: real) \<le> 2500 \<and> (2500 :: real) \<le> 2 ^ 500
   \<and> calculatePositionSizeDouble (Some 1000) (Some (toDouble 0.0033335)) (Some (toDouble 0.02))
         (Some 15) \<le> 500 + 1 / 2 ^ 42
   \<and> \<bar>calculatePositionSizeDouble (Some 1000) (Some (toDouble 0.0033335))
          (Some (toDouble 0.02)) (Some 15)
        - calculatePositionSizeDouble (Some 2500) (Some (toDouble 0.0033335))
            (Some (toDouble 0.02)) (Some 15)\<bar> \<le> 1 / 100 + 1 / 2 ^ 40"
  using calculatePositionSizeDouble_balance
          [of 1000 2500 "Some (toDouble 0.0033335)" "Some (toDouble 0.02)" "Some 15"]
  by simp

subsection \<open>The settings store\<close>

lemma normalizeProfile_swing: "normalizeProfile ''swing'' = ''swing''"
  by (simp add: normalizeProfile_def toLowerCase_def toLowerChar_def isWhitespace_def)

lemma selectedKey_swing: "selectedKey ''swing'' = SwingKey"
  by (simp add: selectedKey_def normalizeProfile_swing)

lemma getMoneyManagementSettings_swing:
  "getMoneyManagementSettings st (Some \<lparr>balance = 10000\<rparr>) ''swing'' = StoreEntry SwingKey"
  by (simp add: getMoneyManagementSettings_def selectedKey_swing)

lemma storeEntry_setStoreEntry:
  "storeEntry (setStoreEntry store k s) k' = (if k' = k then s else storeEntry store k')"
  by (cases k; cases k') simp_all

text \<open>An update reaches the entry of its own key only.\<close>

lemma storeEntry_update:
  "keyOf profileType \<noteq> Some k \<Longrightarrow>
   storeEntry (snd (updateMoneyManagementSettings store profileType newSettings)) k
     = storeEntry store k"
proof (cases "keyOf profileType")
  case None
  then show ?thesis
    by (cases k) (simp_all add: updateMoneyManagementSettings_def split: option.split)
next
  case (Some k')
  assume "keyOf profileType \<noteq> Some k"
  with Some have "k \<noteq> k'" by auto
  with Some show ?thesis
    by (simp add: updateMoneyManagementSettings_def storeEntry_setStoreEntry)
qed

text \<open>So does a reset, and a load replaces the store by the saved one.\<close>

lemma storeEntry_reset:
  "profileType \<noteq> [] \<Longrightarrow> keyOf profileType \<noteq> Some k \<Longrightarrow>
   storeEntry (snd (resetToDefaultSettings store profileType)) k = storeEntry store k"
proof (cases "keyOf profileType")
  case None
  assume "profileType \<noteq> []"
  with None show ?thesis
    by (simp add: resetToDefaultSettings_def)
next
  case (Some k')
  assume "profileType \<noteq> []" "keyOf profileType \<noteq> Some k"
  with Some have "k \<noteq> k'" "profileType \<noteq> []" by auto
  with Some show ?thesis
    by (simp add: resetToDefaultSettings_def storeEntry_setStoreEntry)
qed

lemma storeEntry_reset_selected:
  "keyOf profileType = Some k \<Longrightarrow>
   storeEntry (snd (resetToDefaultSettings store profileType)) k
     = storeEntry moneyManagementDefaults k"
  by (auto simp: resetToDefaultSettings_def storeEntry_setStoreEntry keyOf_def)

lemma loadMoneyManagementSettings_saved:
  "snd (loadMoneyManagementSettings (Some saved) store) = saved"
  "snd (loadMoneyManagementSettings None store) = store"
  by (simp_all add: loadMoneyManagementSettings_def)

text \<open>The values returned depend on the store through the selected entry only.\<close>

lemma objectValue_getMoneyManagementSettings:
  "objectValue store (getMoneyManagementSettings store acct profileName) =
     (let settings = storeEntry store (selectedKey profileName)
      in case acct of
           None \<Rightarrow> settings
         | Some a \<Rightarrow>
             if balance a = 0 then settings
             else if balance a < 1000
               then settings\<lparr>maxRiskPerTrade := max 0.005 (maxRiskPerTrade settings * 0.7)\<rparr>
             else if balance a > 50000
               then settings\<lparr>maxRiskPerTrade := min 0.01 (maxRiskPerTrade settings * 0.8)\<rparr>
             else settings)"
  by (simp add: getMoneyManagementSettings_def Let_def split: option.split)

text \<open>
  The object handed out for a balance from 1000 to 50000 is the store's own: a caller's
  write to it shows in the next call.
\<close>

lemma returned_object_is_shared:
  "objectValue
     (writeThrough moneyManagementDefaults
        (getMoneyManagementSettings moneyManagementDefaults (Some \<lparr>balance = 10000\<rparr>) ''swing'')
        (\<lambda>s. s\<lparr>maxRiskPerTrade := 0.5\<rparr>))
     (getMoneyManagementSettings
        (writeThrough moneyManagementDefaults
           (getMoneyManagementSettings moneyManagementDefaults (Some \<lparr>balance = 10000\<rparr>)
              ''swing'')
           (\<lambda>s. s\<lparr>maxRiskPerTrade := 0.5\<rparr>))
        (Some \<lparr>balance = 10000\<rparr>) ''swing'')
   = (swing moneyManagementDefaults)\<lparr>maxRiskPerTrade := 0.5\<rparr>"
  by (simp add: getMoneyManagementSettings_swing)

text \<open>
  C4, as stated, fails: an update of the swing entry between two calls with equal arguments
  changes what the second call returns, 0.05 instead of 0.015 as \<^verbatim>\<open>maxRiskPerTrade\<close>.
\<close>

theorem getMoneyManagementSettings_shared_state_counterexample:
  "maxRiskPerTrade
     (objectValue moneyManagementDefaults
        (getMoneyManagementSettings moneyManagementDefaults (Some \<lparr>balance = 10000\<rparr>)
           ''swing'')) = 0.015
   \<and> maxRiskPerTrade
       (objectValue
          (snd (updateMoneyManagementSettings moneyManagementDefaults ''swing''
                  (noPatch\<lparr>newMaxRiskPerTrade := Some 0.05\<rparr>)))
          (getMoneyManagementSettings
             (snd (updateMoneyManagementSettings moneyManagementDefaults ''swing''
                     (noPatch\<lparr>newMaxRiskPerTrade := Some 0.05\<rparr>)))
             (Some \<lparr>balance = 10000\<rparr>) ''swing'')) = 0.05"
  by (simp add: getMoneyManagementSettings_swing updateMoneyManagementSettings_def keyOf_def
      spreadSettings_def noPatch_def moneyManagementDefaults_def)

text \<open>
  C4, amended. The values that \<^verbatim>\<open>getMoneyManagementSettings\<close> returns are a function of
  its arguments and of the contents of the one entry of \<^verbatim>\<open>userSettings\<close> that the profile
  name selects: two calls with equal arguments return equal values whenever that entry
  holds the same values at both calls, whatever else was written to the store; and a call
  to \<^verbatim>\<open>updateMoneyManagementSettings\<close> under any key but the selected one leaves the values
  returned as they were.
\<close>

theorem getMoneyManagementSettings_store_function:
  "(storeEntry store (selectedKey profileName) = storeEntry store' (selectedKey profileName)
      \<longrightarrow> objectValue store (getMoneyManagementSettings store acct profileName)
           = objectValue store' (getMoneyManagementSettings store' acct profileName))
   \<and> (keyOf profileType \<noteq> Some (selectedKey profileName)
      \<longrightarrow> objectValue
             (snd (updateMoneyManagementSettings store profileType newSettings))
             (getMoneyManagementSettings
                (snd (updateMoneyManagementSettings store profileType newSettings))
                acct profileName)
           = objectValue store (getMoneyManagementSettings store acct profileName))"
  by (simp add: objectValue_getMoneyManagementSettings storeEntry_update)

theorem getMoneyManagementSettings_store_function_witness:
  "storeEntry moneyManagementDefaults (selectedKey ''swing'')
     = storeEntry
         (snd (updateMoneyManagementSettings moneyManagementDefaults ''scalping''
                 (noPatch\<lparr>newMaxRiskPerTrade := Some 0.05\<rparr>)))
         (selectedKey ''swing'')
   \<and> snd (updateMoneyManagementSettings moneyManagementDefaults ''scalping''
             (noPatch\<lparr>newMaxRiskPerTrade := Some 0.05\<rparr>))
       \<noteq> moneyManagementDefaults
   \<and> objectValue moneyManagementDefaults
         (getMoneyManagementSettings moneyManagementDefaults (Some \<lparr>balance = 100000\<rparr>)
            ''swing'')
       = objectValue
           (snd (updateMoneyManagementSettings moneyManagementDefaults ''scalping''
                   (noPatch\<lparr>newMaxRiskPerTrade := Some 0.05\<rparr>)))
           (getMoneyManagementSettings
              (snd (updateMoneyManagementSettings moneyManagementDefaults ''scalping''
                      (noPatch\<lparr>newMaxRiskPerTrade := Some 0.05\<rparr>)))
              (Some \<lparr>balance = 100000\<rparr>) ''swing'')
   \<and> keyOf ''constructor'' \<noteq> Some (selectedKey ''swing'')
   \<and> objectValue
        (snd (updateMoneyManagementSettings moneyManagementDefaults ''constructor''
                (noPatch\<lparr>newMaxRiskPerTrade := Some 0.05\<rparr>)))
        (getMoneyManagementSettings
           (snd (updateMoneyManagementSettings moneyManagementDefaults ''constructor''
                   (noPatch\<lparr>newMaxRiskPerTrade := Some 0.05\<rparr>)))
           (Some \<lparr>balance = 100000\<rparr>) ''swing'')
      = objectValue moneyManagementDefaults
          (getMoneyManagementSettings moneyManagementDefaults (Some \<lparr>balance = 100000\<rparr>)
             ''swing'')
   \<and> maxRiskPerTrade
        (objectValue moneyManagementDefaults
           (getMoneyManagementSettings moneyManagementDefaults (Some \<lparr>balance = 100000\<rparr>)
              ''swing'')) = 0.01"
proof -
  let ?p = "noPatch\<lparr>newMaxRiskPerTrade := Some 0.05\<rparr>"
  let ?st = "snd (updateMoneyManagementSettings moneyManagementDefaults ''scalping'' ?p)"
  have u: "?st = moneyManagementDefaults
                   \<lparr>scalping := spreadSettings (scalping moneyManagementDefaults) ?p\<rparr>"
    by (simp add: updateMoneyManagementSettings_def keyOf_def)
  have h: "storeEntry moneyManagementDefaults (selectedKey ''swing'')
             = storeEntry ?st (selectedKey ''swing'')"
    unfolding u by (simp add: selectedKey_swing)
  have "maxRiskPerTrade (scalping ?st) \<noteq> maxRiskPerTrade (scalping moneyManagementDefaults)"
    unfolding u by (simp add: spreadSettings_def noPatch_def moneyManagementDefaults_def)
  then have n: "?st \<noteq> moneyManagementDefaults" by auto
  have k: "keyOf ''constructor'' \<noteq> Some (selectedKey ''swing'')"
    by (simp add: keyOf_def)
  have v: "maxRiskPerTrade
             (objectValue moneyManagementDefaults
                (getMoneyManagementSettings moneyManagementDefaults
                   (Some \<lparr>balance = 100000\<rparr>) ''swing'')) = 0.01"
    by (simp add: objectValue_getMoneyManagementSettings selectedKey_swing
        moneyManagementDefaults_def)
  from getMoneyManagementSettings_store_function
         [of moneyManagementDefaults "''swing''" ?st "Some \<lparr>balance = 100000\<rparr>"] h
  have a: "objectValue moneyManagementDefaults
             (getMoneyManagementSettings moneyManagementDefaults
                (Some \<lparr>balance = 100000\<rparr>) ''swing'')
           = objectValue ?st
               (getMoneyManagementSettings ?st (Some \<lparr>balance = 100000\<rparr>) ''swing'')"
    by blast
  from getMoneyManagementSettings_store_function
         [of moneyManagementDefaults "''swing''" moneyManagementDefaults
             "Some \<lparr>balance = 100000\<rparr>" "''constructor''" ?p] k
  have b: "objectValue
        (snd (updateMoneyManagementSettings moneyManagementDefaults ''constructor'' ?p))
        (getMoneyManagementSettings
           (snd (updateMoneyManagementSettings moneyManagementDefaults ''constructor'' ?p))
           (Some \<lparr>balance = 100000\<rparr>) ''swing'')
      = objectValue moneyManagementDefaults
          (getMoneyManagementSettings moneyManagementDefaults (Some \<lparr>balance = 100000\<rparr>)
             ''swing'')"
    by blast
  from h n a k b v show ?thesis by (simp only: simp_thms)
qed

subsection \<open>Indicator arrays\<close>

lemma length_priceChanges: "length (priceChanges prices) = length prices - 1"
  by (simp add: priceChanges_def)

text \<open>
  C3. The claim asks for an array as long as the price series. \<^verbatim>\<open>calculateSMA\<close> returns
  one, and so does \<^verbatim>\<open>calculateRSI\<close> when the history is insufficient; with sufficient
  history the outer loop of \<^verbatim>\<open>calculateRSI\<close> stops at \<^verbatim>\<open>changes.length\<close>, one short of
  \<^verbatim>\<open>prices.length\<close>, and the array misses the entry of the last price.
\<close>

theorem calculateRSI_length:
  "length (calculateRSI prices period) =
     (if length prices \<le> period then length prices else length prices - 1)
   \<and> calculateRSI [44, 44.5, 45] 2 = [Null, Null]
   \<and> length (calculateSMA prices period) = length prices"
  by (auto simp: calculateRSI_def calculateSMA_def length_priceChanges Let_def numeral_2_eq_2)

lemma priceChanges_pos:
  assumes "sorted_wrt (<) prices" "j < length prices - 1"
  shows "priceChanges prices ! j > 0"
proof -
  have "priceChanges prices ! j = prices ! (j + 1) - prices ! j"
    using assms(2) by (simp add: priceChanges_def)
  moreover have "prices ! j < prices ! (j + 1)"
    using assms by (simp add: sorted_wrt_iff_nth_less)
  ultimately show ?thesis by simp
qed

text \<open>Over a window of rising prices the inner loop never touches \<open>losses\<close>.\<close>

lemma losses_unchanged:
  "\<forall>j \<in> set js. changes ! j > 0 \<Longrightarrow>
   snd (foldl (\<lambda>(gains, losses) j.
                 if changes ! j > 0 then (gains + changes ! j, losses)
                 else (gains, losses - changes ! j)) (g, l) js) = l"
  by (induction js arbitrary: g l) simp_all

lemma rsiAt_increasing:
  assumes "sorted_wrt (<) prices" "0 < period" "i < length prices"
  shows "rsiAt (priceChanges prices) period i = Num 100"
proof -
  have "\<forall>j \<in> set [i - period..<i]. priceChanges prices ! j > 0"
    using assms by (auto intro!: priceChanges_pos)
  then have "snd (gainsLosses (priceChanges prices) period i) = 0"
    unfolding gainsLosses_def by (rule losses_unchanged)
  moreover obtain g l where "gainsLosses (priceChanges prices) period i = (g, l)"
    by (cases "gainsLosses (priceChanges prices) period i")
  ultimately show ?thesis
    using assms(2) by (simp add: rsiAt_def)
qed

text \<open>
  C9, as stated, covers every period. With \<open>period = 0\<close> each window is empty, the averages
  are \<open>0 / 0\<close>, and the entries are \<^verbatim>\<open>NaN\<close>, not 100.
\<close>

theorem calculateRSI_increasing_counterexample:
  "sorted_wrt (<) [1, 2 :: real] \<and> 0 < length [1, 2 :: real]
   \<and> \<not> (\<forall>c \<in> set (calculateRSI [1, 2] 0). c \<noteq> Null \<longrightarrow> c = Num 100)"
  by (simp add: calculateRSI_def priceChanges_def rsiAt_def gainsLosses_def)

text \<open>
  C9, amended. For a period of at least 1 and a strictly increasing series of more than
  \<open>period\<close> prices, every entry of \<^verbatim>\<open>calculateRSI\<close> other than the unavailable marker is
  exactly 100; for a series of fewer than \<open>period + 1\<close> prices every entry is the
  unavailable marker (for any period).
\<close>

theorem calculateRSI_increasing:
  "(sorted_wrt (<) prices \<and> period < length prices \<and> 0 < period \<longrightarrow>
      (\<forall>c \<in> set (calculateRSI prices period). c \<noteq> Null \<longrightarrow> c = Num 100))
   \<and> (length prices < period + 1 \<longrightarrow>
        (\<forall>c \<in> set (calculateRSI prices period). c = Null))"
  by (auto simp: calculateRSI_def Let_def length_priceChanges rsiAt_increasing)

theorem calculateRSI_increasing_witness:
  "sorted_wrt (<) [1, 2, 4, 7 :: real] \<and> 2 < length [1, 2, 4, 7 :: real] \<and> (0::nat) < 2
   \<and> calculateRSI [1, 2, 4, 7] 2 = [Null, Null, Num 100]
   \<and> length [1, 2 :: real] < 2 + 1
   \<and> calculateRSI [1, 2] 2 = [Null, Null]"
proof -
  have e1: "calculateRSI [1, 2, 4, 7] 2 = [Null, Null, Num 100]"
    by (simp add: calculateRSI_def priceChanges_def rsiAt_def gainsLosses_def upt_rec
        numeral_nat)
  have e2: "calculateRSI [1, 2] 2 = [Null, Null]"
    by (simp add: calculateRSI_def numeral_2_eq_2)
  have h: "sorted_wrt (<) [1, 2, 4, 7 :: real] \<and> 2 < length [1, 2, 4, 7 :: real] \<and> (0::nat) < 2"
    by simp
  have "\<forall>c \<in> set (calculateRSI [1, 2, 4, 7] 2). c \<noteq> Null \<longrightarrow> c = Num 100"
    using calculateRSI_increasing [of "[1, 2, 4, 7]" 2] h by blast
  then show ?thesis
    using h by (simp add: e1 e2)
qed

subsection \<open>Signals and the composite score\<close>

lemma calculateRSISignal_range: "inSignalRange (calculateRSISignal ti)"
  by (simp add: inSignalRange_def calculateRSISignal_def split: option.split)

lemma calculateMACDSignal_range: "inSignalRange (calculateMACDSignal ti)"
  by (simp add: inSignalRange_def calculateMACDSignal_def split: option.split)

lemma calculateADXSignal_range: "inSignalRange (calculateADXSignal ti)"
  by (simp add: inSignalRange_def calculateADXSignal_def Let_def split: option.split)

lemma calculateBollingerSignal_range: "inSignalRange (calculateBollingerSignal ti)"
  by (simp add: inSignalRange_def calculateBollingerSignal_def Let_def split: option.split)

lemma calculateVolumeSignal_range: "inSignalRange (calculateVolumeSignal ti)"
  by (simp add: inSignalRange_def calculateVolumeSignal_def Let_def split: option.split)

text \<open>The moving-average signal is an average of votes of size at most their weight.\<close>

lemma calculateEMASignal_bound: "calculateEMASignal ti = Some r \<Longrightarrow> - 1 \<le> r \<and> r \<le> 1"
  unfolding calculateEMASignal_def Let_def
  by (auto split: option.splits if_splits prod.splits)

lemma calculateEMASignal_range: "inSignalRange (calculateEMASignal ti)"
  using calculateEMASignal_bound [of ti]
  by (cases "calculateEMASignal ti") (auto simp: inSignalRange_def)

lemma patternContribution_bound:
  "patternContribution p = (v, w) \<Longrightarrow> \<bar>v\<bar> \<le> 1.5 \<and> 0 < w"
  by (auto simp: patternContribution_def split: if_splits)

text \<open>Invariant of the pattern loop: the sum stays within 1.5 times the total weight.\<close>

lemma pattern_loop_bound:
  "\<bar>s\<bar> \<le> 1.5 * w \<Longrightarrow>
   foldl (\<lambda>(patternSignal, patternWeight) p.
            (case patternContribution p of
               (signalValue, weight) \<Rightarrow>
                 (patternSignal + signalValue * weight, patternWeight + weight)))
     (s, w) ps = (s', w') \<Longrightarrow> \<bar>s'\<bar> \<le> 1.5 * w'"
proof (induction ps arbitrary: s w)
  case Nil
  then show ?case by simp
next
  case (Cons p ps)
  obtain v k where c: "patternContribution p = (v, k)" by (cases "patternContribution p")
  from patternContribution_bound [OF c] have b: "\<bar>v\<bar> \<le> 1.5" "0 < k" by simp_all
  then have "\<bar>v * k\<bar> \<le> 1.5 * k" by (simp add: abs_mult)
  moreover have "\<bar>s + v * k\<bar> \<le> \<bar>s\<bar> + \<bar>v * k\<bar>" by (rule abs_triangle_ineq)
  ultimately have "\<bar>s + v * k\<bar> \<le> 1.5 * (w + k)"
    using Cons.prems(1) by (simp add: distrib_left)
  with Cons.IH [of "s + v * k" "w + k"] Cons.prems(2) c show ?case by simp
qed

lemma calculatePatternSignal_range: "inSignalRange (calculatePatternSignal ti)"
proof (cases "calculatePatternSignal ti")
  case None
  then show ?thesis by (simp add: inSignalRange_def)
next
  case (Some r)
  then obtain t s w where t: "trend ti = Some t"
    and f: "foldl (\<lambda>(patternSignal, patternWeight) p.
                     (case patternContribution p of
                        (signalValue, weight) \<Rightarrow>
                          (patternSignal + signalValue * weight, patternWeight + weight)))
              (0, 0) (patterns t) = (s, w)"
    and w: "0 < w" and r: "r = s / w"
    unfolding calculatePatternSignal_def
    by (auto split: option.splits if_splits prod.splits)
  from pattern_loop_bound [OF _ f] have "\<bar>s\<bar> \<le> 1.5 * w" by simp
  with w have "\<bar>s\<bar> / w \<le> 3 / 2" by (simp add: pos_divide_le_eq)
  moreover have "\<bar>r\<bar> = \<bar>s\<bar> / w" using w r by simp
  ultimately have "- 2 \<le> r \<and> r \<le> 2" by linarith
  with Some show ?thesis by (simp add: inSignalRange_def)
qed

text \<open>Invariant of the scoring loop: \<open>|totalScore| \<le> maxPossibleScore\<close>.\<close>

lemma score_loop_bound:
  "\<forall>(sg, wt) \<in> set pairs. inSignalRange sg \<Longrightarrow> \<bar>t\<bar> \<le> m \<Longrightarrow>
   foldl (\<lambda>(totalScore, maxPossibleScore) (signal, weight).
            (case signal of
               None \<Rightarrow> (totalScore, maxPossibleScore)
             | Some v \<Rightarrow> (totalScore + v * weight, maxPossibleScore + \<bar>weight * 2\<bar>)))
     (t, m) pairs = (t', m') \<Longrightarrow> \<bar>t'\<bar> \<le> m'"
proof (induction pairs arbitrary: t m)
  case Nil
  then show ?case by simp
next
  case (Cons p pairs)
  obtain sg wt where p: "p = (sg, wt)" by (cases p)
  show ?case
  proof (cases sg)
    case None
    with Cons p show ?thesis by simp
  next
    case (Some v)
    with Cons.prems(1) p have "\<bar>v\<bar> \<le> 2" by (simp add: inSignalRange_def abs_le_iff)
    then have "\<bar>v * wt\<bar> \<le> 2 * \<bar>wt\<bar>" by (simp add: abs_mult mult_right_mono)
    moreover have "\<bar>t + v * wt\<bar> \<le> \<bar>t\<bar> + \<bar>v * wt\<bar>" by (rule abs_triangle_ineq)
    ultimately have "\<bar>t + v * wt\<bar> \<le> m + \<bar>wt * 2\<bar>"
      using Cons.prems(2) by (simp add: abs_mult)
    with Cons.IH [of "t + v * wt" "m + \<bar>wt * 2\<bar>"] Cons.prems p Some show ?thesis by simp
  qed
qed

lemma normalizedScore_bound:
  "- 10 \<le> normalizedScore ti profileType \<and> normalizedScore ti profileType \<le> 10"
proof -
  let ?pairs = "signalWeightPairs (calculateSignals ti) (getWeightsForProfile profileType)"
  obtain t m where tm: "scoreTotals ?pairs = (t, m)" by (cases "scoreTotals ?pairs")
  have "\<forall>(sg, wt) \<in> set ?pairs. inSignalRange sg"
    by (simp add: signalWeightPairs_def calculateSignals_def calculateRSISignal_range
        calculateMACDSignal_range calculateEMASignal_range calculateADXSignal_range
        calculateBollingerSignal_range calculateVolumeSignal_range
        calculatePatternSignal_range)
  moreover have "\<bar>0 :: real\<bar> \<le> 0" by simp
  moreover note tm [unfolded scoreTotals_def]
  ultimately have b: "\<bar>t\<bar> \<le> m" by (rule score_loop_bound)
  show ?thesis
  proof (cases "m > 0")
    case True
    define q where "q = t / m"
    from b True have "\<bar>t\<bar> / m \<le> 1" by (simp add: pos_divide_le_eq)
    moreover have "\<bar>q\<bar> = \<bar>t\<bar> / m" using True by (simp add: q_def)
    ultimately have "- 10 \<le> q * 10 \<and> q * 10 \<le> 10" by linarith
    with True tm show ?thesis by (simp add: normalizedScore_def q_def)
  next
    case False
    with tm show ?thesis by (simp add: normalizedScore_def)
  qed
qed

lemma round_hundredths_bound:
  fixes y :: real
  assumes "0 \<le> y" "y \<le> 10"
  shows "0 \<le> real_of_int \<lfloor>y * 100 + 1 / 2\<rfloor> / 100"
    and "real_of_int \<lfloor>y * 100 + 1 / 2\<rfloor> / 100 \<le> 10"
proof -
  have "0 \<le> \<lfloor>y * 100 + 1 / 2\<rfloor>" using assms(1) by simp
  then show "0 \<le> real_of_int \<lfloor>y * 100 + 1 / 2\<rfloor> / 100" by simp
  have "y * 100 + 1 / 2 < 1001" using assms(2) by simp
  then have "\<lfloor>y * 100 + 1 / 2\<rfloor> \<le> 1000" by (simp add: floor_le_iff)
  then have "real_of_int \<lfloor>y * 100 + 1 / 2\<rfloor> \<le> 1000" by linarith
  then show "real_of_int \<lfloor>y * 100 + 1 / 2\<rfloor> / 100 \<le> 10" by simp
qed

lemma toFixed2_bound:
  assumes "- 10 \<le> x" "x \<le> 10"
  shows "- 10 \<le> toFixed2 x \<and> toFixed2 x \<le> 10"
proof (cases "x < 0")
  case True
  then have "toFixed2 x = - (real_of_int \<lfloor>- x * 100 + 1 / 2\<rfloor> / 100)"
    by (simp only: toFixed2_def if_True)
  moreover have "0 \<le> - x" "- x \<le> 10" using True assms by simp_all
  ultimately show ?thesis
    using round_hundredths_bound [of "- x"] by linarith
next
  case False
  then have "toFixed2 x = real_of_int \<lfloor>x * 100 + 1 / 2\<rfloor> / 100"
    by (simp only: toFixed2_def if_False)
  moreover have "0 \<le> x" using False by simp
  ultimately show ?thesis
    using round_hundredths_bound [of x] assms by linarith
qed

text \<open>
  C5. On every snapshot each of the seven signal functions returns the unavailable marker
  or a number in \<open>[-2, 2]\<close>; for every snapshot and profile the normalized score lies in
  \<open>[-10, 10]\<close>, and so does the \<^verbatim>\<open>score\<close> that \<^verbatim>\<open>calculateWeightedRecommendation\<close> returns.
\<close>

theorem signals_and_score_in_range:
  "inSignalRange (calculateRSISignal ti)
   \<and> inSignalRange (calculateMACDSignal ti)
   \<and> inSignalRange (calculateEMASignal ti)
   \<and> inSignalRange (calculateADXSignal ti)
   \<and> inSignalRange (calculateBollingerSignal ti)
   \<and> inSignalRange (calculateVolumeSignal ti)
   \<and> inSignalRange (calculatePatternSignal ti)
   \<and> - 10 \<le> normalizedScore ti profileType
   \<and> normalizedScore ti profileType \<le> 10
   \<and> - 10 \<le> score (calculateWeightedRecommendation ti profileType)
   \<and> score (calculateWeightedRecommendation ti profileType) \<le> 10"
  using normalizedScore_bound [of ti profileType]
        toFixed2_bound [of "normalizedScore ti profileType"]
  by (simp add: calculateRSISignal_range calculateMACDSignal_range calculateEMASignal_range
      calculateADXSignal_range calculateBollingerSignal_range calculateVolumeSignal_range
      calculatePatternSignal_range calculateWeightedRecommendation_def Let_def)

lemma normalizeProfile_position: "normalizeProfile ''position'' = ''position''"
  by (simp add: normalizeProfile_def toLowerCase_def toLowerChar_def isWhitespace_def)

lemma calculateSignals_example: "calculateSignals exampleSnapshot = exampleSignals"
  by (simp add: calculateSignals_def exampleSnapshot_def exampleSignals_def
      calculateRSISignal_def calculateMACDSignal_def calculateEMASignal_def
      calculateADXSignal_def calculateBollingerSignal_def calculateVolumeSignal_def
      calculatePatternSignal_def)

lemma normalizedScore_example: "normalizedScore exampleSnapshot ''position'' = 45 / 8"
  by (simp add: normalizedScore_def calculateSignals_example exampleSignals_def
      getWeightsForProfile_def normalizeProfile_position signalWeightPairs_def
      scoreTotals_def)

theorem signals_and_score_in_range_witness:
  "calculateRSISignal exampleSnapshot = Some (1 / 2)
   \<and> calculateADXSignal exampleSnapshot = Some (3 / 2)
   \<and> calculateMACDSignal exampleSnapshot = None
   \<and> normalizedScore exampleSnapshot ''position'' = 45 / 8
   \<and> - 10 \<le> normalizedScore exampleSnapshot ''position''
   \<and> normalizedScore exampleSnapshot ''position'' \<le> 10
   \<and> score (calculateWeightedRecommendation exampleSnapshot ''position'') = 5.63"
proof -
  have e: "calculateRSISignal exampleSnapshot = Some (1 / 2)
           \<and> calculateADXSignal exampleSnapshot = Some (3 / 2)
           \<and> calculateMACDSignal exampleSnapshot = None"
    by (simp add: exampleSnapshot_def calculateRSISignal_def calculateADXSignal_def
        calculateMACDSignal_def)
  have f: "score (calculateWeightedRecommendation exampleSnapshot ''position'') = 5.63"
    by (simp add: normalizedScore_example calculateWeightedRecommendation_def toFixed2_def
        Let_def)
  from signals_and_score_in_range [of exampleSnapshot "''position''"]
  have "- 10 \<le> normalizedScore exampleSnapshot ''position''
        \<and> normalizedScore exampleSnapshot ''position'' \<le> 10"
    by blast
  with e f show ?thesis by (simp add: normalizedScore_example)
qed

subsection \<open>Confidence level\<close>

lemma foldl_add_sum_list: "foldl (+) a xs = a + sum_list (xs :: real list)"
  by (induction xs arbitrary: a) simp_all

lemma signalMean_eq: "signalMean vs = sum_list vs / real (length vs)"
  by (simp add: signalMean_def foldl_add_sum_list)

lemma signalStdDev_eq:
  "signalStdDev vs =
     sqrt (sum_list (map (\<lambda>v. (v - sum_list vs / real (length vs)) ^ 2) vs) / real (length vs))"
  by (simp add: signalStdDev_def signalMean_eq foldl_add_sum_list Let_def)

lemma sqrt_quarter: "sqrt (1 / 4) = 1 / 2"
  by (simp add: real_sqrt_divide)

lemma validSignals_example: "validSignals exampleSignals = [1 / 2, 3 / 2]"
  by (simp add: validSignals_def exampleSignals_def List.map_filter_simps)

lemma signalStdDev_example: "signalStdDev [1 / 2, 3 / 2] = 1 / 2"
  by (simp add: signalStdDev_eq power2_eq_square sqrt_quarter)

lemma signalToNoise_example: "signalToNoise [1 / 2, 3 / 2] = 2"
  by (simp add: signalToNoise_def signalStdDev_example signalMean_eq Let_def)

text \<open>
  C2, as stated, fails where the standard deviation lies strictly between 0 and 1. On the
  example snapshot with the position profile the signals are 0.5 and 1.5: mean 1, standard
  deviation 0.5, score 5.625. The source divides by 0.5, the ratio is 2 and the confidence
  Alta; dividing by \<open>max stdDev 1 = 1\<close>, as the claim has it, gives the ratio 1 and Media.
\<close>

theorem determineConfidence_divisor_counterexample:
  "calculateSignals exampleSnapshot = exampleSignals
   \<and> normalizedScore exampleSnapshot ''position'' = 45 / 8
   \<and> 0 < signalStdDev (validSignals exampleSignals)
   \<and> signalStdDev (validSignals exampleSignals) < 1
   \<and> signalToNoise (validSignals exampleSignals) = 2
   \<and> \<bar>signalMean (validSignals exampleSignals)\<bar>
        / max (signalStdDev (validSignals exampleSignals)) 1 = 1
   \<and> determineConfidence (45 / 8) exampleSignals = Alta
   \<and> confidenceRule (\<lambda>stdDev. max stdDev 1) (45 / 8) (validSignals exampleSignals) = Media"
  by (simp add: calculateSignals_example normalizedScore_example validSignals_example
      signalStdDev_example signalToNoise_example determineConfidence_def signalMean_eq
      confidenceRule_def power2_eq_square sqrt_quarter Let_def)

text \<open>
  C2, amended. With at least two available signals the confidence is the rule of the
  specification with the divisor \<open>stdDev\<close>, replaced by 1 only when \<open>stdDev\<close> is 0; with
  fewer than two it is Bassa. In particular, for a standard deviation strictly between 0
  and 1 the divisor is the standard deviation itself.
\<close>

theorem determineConfidence_rule:
  "(2 \<le> length (validSignals s) \<longrightarrow>
      determineConfidence sc s =
        confidenceRule (\<lambda>stdDev. if stdDev = 0 then 1 else stdDev) sc (validSignals s))
   \<and> (length (validSignals s) < 2 \<longrightarrow> determineConfidence sc s = Bassa)
   \<and> (0 < signalStdDev vs \<and> signalStdDev vs < 1 \<longrightarrow>
        signalToNoise vs = \<bar>signalMean vs\<bar> / signalStdDev vs)"
  by (auto simp: determineConfidence_def confidenceRule_def signalToNoise_def
      signalMean_eq signalStdDev_eq Let_def)

theorem determineConfidence_rule_witness:
  "2 \<le> length (validSignals exampleSignals)
   \<and> determineConfidence (45 / 8) exampleSignals =
       confidenceRule (\<lambda>stdDev. if stdDev = 0 then 1 else stdDev) (45 / 8)
         (validSignals exampleSignals)
   \<and> determineConfidence (45 / 8) exampleSignals = Alta
   \<and> 0 < signalStdDev [1 / 2, 3 / 2] \<and> signalStdDev [1 / 2, 3 / 2] < 1
   \<and> signalToNoise [1 / 2, 3 / 2] = \<bar>signalMean [1 / 2, 3 / 2]\<bar> / signalStdDev [1 / 2, 3 / 2]"
proof -
  have h: "2 \<le> length (validSignals exampleSignals)"
    by (simp add: validSignals_example)
  have k: "0 < signalStdDev [1 / 2, 3 / 2] \<and> signalStdDev [1 / 2, 3 / 2] < 1"
    by (simp add: signalStdDev_example)
  have a: "determineConfidence (45 / 8) exampleSignals = Alta"
    by (simp add: determineConfidence_def validSignals_example signalToNoise_example Let_def)
  from determineConfidence_rule [of exampleSignals "45 / 8" "[1 / 2, 3 / 2]"] h k
  have "determineConfidence (45 / 8) exampleSignals =
          confidenceRule (\<lambda>stdDev. if stdDev = 0 then 1 else stdDev) (45 / 8)
            (validSignals exampleSignals)
        \<and> signalToNoise [1 / 2, 3 / 2] = \<bar>signalMean [1 / 2, 3 / 2]\<bar> / signalStdDev [1 / 2, 3 / 2]"
    by blast
  with h k a show ?thesis by simp
qed

subsection \<open>Risk/reward and order generation\<close>

lemma calculateRiskRewardRatio_Some:
  "calculateRiskRewardRatio e t s = Some r \<Longrightarrow> e \<noteq> s \<and> r = \<bar>t - e\<bar> / \<bar>e - s\<bar>"
  by (auto simp: calculateRiskRewardRatio_def Let_def split: if_splits)

text \<open>The only way to a complete order: every level found, and the ratio not below the minimum.\<close>

lemma generateMT4Order_valid_shape:
  assumes r: "generateMT4Order d recommendation acct = Inr order" and v: "valid order"
  shows "\<exists>ot entry stopV targetV ratio sz.
           calculateRiskRewardRatio entry targetV stopV = Some ratio
           \<and> \<not> ratio < getMinimumRiskRewardRatio (name (tradingProfile d))
           \<and> order = \<lparr> valid = True, message = None,
                        details = Some \<lparr> orderSymbol = symbol d, orderKind = ot,
                          entryPrice = entry, stopLoss = stopV, targetPrice = targetV,
                          positionSize = sz, riskRewardRatio = ratio,
                          orderConfidence = getConfidenceLevel recommendation,
                          orderProfile = name (tradingProfile d) \<rparr> \<rparr>"
proof -
  let ?ti = "technicalIndicators d" and ?pn = "name (tradingProfile d)"
  obtain ot where ot: "determineOrderType recommendation = Some ot"
    using r v by (cases "determineOrderType recommendation")
      (auto simp: generateMT4Order_def rejected_def Let_def)
  let ?dir = "case ot of BUY \<Rightarrow> long | SELL \<Rightarrow> short"
  obtain entry where en: "calculateEntryPrice ?ti ot ?pn = Inr entry"
    using r ot by (cases "calculateEntryPrice ?ti ot ?pn")
      (auto simp: generateMT4Order_def Let_def)
  obtain stopV where st: "calculateOptimalStopLoss ?ti ?dir ?pn = Some stopV"
    using r v ot en by (cases "calculateOptimalStopLoss ?ti ?dir ?pn")
      (auto simp: generateMT4Order_def rejected_def Let_def)
  define tg where "tg = (case calculateOptimalTargetPrice ?ti ?dir ?pn of
                            None \<Rightarrow> None | Some r \<Rightarrow> targetValue r)"
  have r': "(case tg of
               Some targetV \<Rightarrow>
                 if entry = 0 \<or> stopV = 0 \<or> targetV = 0
                 then Inr (rejected InvalidPriceLevels)
                 else
                   (case calculateRiskRewardRatio entry targetV stopV of
                      None \<Rightarrow> Inl TypeError
                    | Some ratio \<Rightarrow>
                        if ratio < getMinimumRiskRewardRatio ?pn
                        then Inr (rejected
                               (RiskRewardBelowMinimum (toFixed2 ratio)
                                  (getMinimumRiskRewardRatio ?pn)))
                        else
                          (case (acct, volatility ?ti) of
                             (Some a, Some v) \<Rightarrow>
                               Inr \<lparr> valid = True, message = None,
                                     details = Some
                                       \<lparr> orderSymbol = symbol d, orderKind = ot,
                                         entryPrice = entry, stopLoss = stopV,
                                         targetPrice = targetV,
                                         positionSize =
                                           calculatePositionSize (Some (balance a))
                                             (Some (\<bar>entry - stopV\<bar> / entry)) None
                                             (Some (volatilityValue v)),
                                         riskRewardRatio = ratio,
                                         orderConfidence = getConfidenceLevel recommendation,
                                         orderProfile = ?pn \<rparr> \<rparr>
                           | _ \<Rightarrow> Inl TypeError))
             | None \<Rightarrow> Inr (rejected InvalidPriceLevels)) = Inr order"
    using r ot en st unfolding generateMT4Order_def Let_def tg_def by simp
  obtain targetV where t: "tg = Some targetV"
    using r' v by (cases tg) (auto simp: rejected_def)
  have nz: "\<not> (entry = 0 \<or> stopV = 0 \<or> targetV = 0)"
    using r' v t by (auto simp: rejected_def split: if_splits)
  obtain ratio where ra: "calculateRiskRewardRatio entry targetV stopV = Some ratio"
    using r' t nz by (cases "calculateRiskRewardRatio entry targetV stopV") auto
  have ge: "\<not> ratio < getMinimumRiskRewardRatio ?pn"
    using r' v t nz ra by (auto simp: rejected_def split: if_splits)
  obtain a where a: "acct = Some a"
    using r' t nz ra ge by (cases acct) auto
  obtain vv where vv: "volatility ?ti = Some vv"
    using r' t nz ra ge a by (cases "volatility ?ti") auto
  from r' t nz ra ge a vv show ?thesis by auto
qed

lemma generateMT4Order_valid_order:
  assumes "generateMT4Order d recommendation acct = Inr order" and "valid order"
  shows "\<exists>f. details order = Some f
          \<and> riskRewardRatio f \<ge> getMinimumRiskRewardRatio (name (tradingProfile d))
          \<and> stopLoss f \<noteq> entryPrice f"
proof -
  from generateMT4Order_valid_shape [OF assms]
  obtain ot entry stopV targetV ratio sz where
    ra: "calculateRiskRewardRatio entry targetV stopV = Some ratio"
    and ge: "\<not> ratio < getMinimumRiskRewardRatio (name (tradingProfile d))"
    and o: "order = \<lparr> valid = True, message = None,
                        details = Some \<lparr> orderSymbol = symbol d, orderKind = ot,
                          entryPrice = entry, stopLoss = stopV, targetPrice = targetV,
                          positionSize = sz, riskRewardRatio = ratio,
                          orderConfidence = getConfidenceLevel recommendation,
                          orderProfile = name (tradingProfile d) \<rparr> \<rparr>"
    by blast
  from calculateRiskRewardRatio_Some [OF ra] have ne: "stopV \<noteq> entry" by auto
  show ?thesis
    using ge ne unfolding o by auto
qed

lemma generateMT4Order_ratio_below_minimum:
  assumes "determineOrderType recommendation = Some ot"
    and "calculateEntryPrice (technicalIndicators d) ot (name (tradingProfile d)) = Inr entry"
    and "calculateOptimalStopLoss (technicalIndicators d)
           (case ot of BUY \<Rightarrow> long | SELL \<Rightarrow> short) (name (tradingProfile d)) = Some stopV"
    and "calculateOptimalTargetPrice (technicalIndicators d)
           (case ot of BUY \<Rightarrow> long | SELL \<Rightarrow> short) (name (tradingProfile d))
         = Some \<lparr> targetValue = Some targetV \<rparr>"
    and "calculateRiskRewardRatio entry targetV stopV = Some ratio"
    and "ratio < getMinimumRiskRewardRatio (name (tradingProfile d))"
  shows "generateMT4Order d recommendation acct =
          Inr \<lparr> valid = False,
                message = Some (RiskRewardBelowMinimum (toFixed2 ratio)
                                  (getMinimumRiskRewardRatio (name (tradingProfile d)))),
                details = None \<rparr>"
proof -
  from assms(5) have "entry \<noteq> 0 \<and> targetV \<noteq> 0 \<and> stopV \<noteq> 0"
    by (auto simp: calculateRiskRewardRatio_def split: if_splits)
  with assms show ?thesis
    unfolding generateMT4Order_def Let_def by (simp add: rejected_def)
qed

text \<open>Evaluation of the example inputs.\<close>

lemma normalizeProfile_names:
  "normalizeProfile ''Falco dello Scalping'' = ''falcodelloscalping''"
  "normalizeProfile ''Orso del Position Trading'' = ''orsodelpositiontrading''"
  "normalizeProfile ''longterm'' = ''longterm''"
  by (simp_all add: normalizeProfile_def toLowerCase_def toLowerChar_def isWhitespace_def)

lemma recommendation_Compra:
  "determineOrderType ''Compra'' = Some BUY" "getConfidenceLevel ''Compra'' = Media"
  by (simp_all add: determineOrderType_def getConfidenceLevel_def toLowerCase_def
      toLowerChar_def)

lemma scalpSnapshot_parts:
  "priceData scalpSnapshot = Some \<lparr> current = 1.004, change = 0 \<rparr>"
  "movingAverages scalpSnapshot = None"
  "levels scalpSnapshot = Some \<lparr> resistances = [], supports = [1.002] \<rparr>"
  "volatility scalpSnapshot = Some \<lparr> volatilityValue = 0, bollingerUpper = None,
                                      bollingerMiddle = None, bollingerLower = None \<rparr>"
  by (simp_all add: scalpSnapshot_def snapshotAt_def)

lemma resistanceSnapshot_parts:
  "priceData resistanceSnapshot = Some \<lparr> current = 100, change = 0 \<rparr>"
  "movingAverages resistanceSnapshot = None"
  "levels resistanceSnapshot = Some \<lparr> resistances = [120], supports = [] \<rparr>"
  "volatility resistanceSnapshot = Some \<lparr> volatilityValue = 0, bollingerUpper = None,
                                           bollingerMiddle = None, bollingerLower = None \<rparr>"
  by (simp_all add: resistanceSnapshot_def snapshotAt_def)

lemma tieSnapshot_parts:
  "priceData tieSnapshot = Some \<lparr> current = 100, change = 0 \<rparr>"
  "movingAverages tieSnapshot = None"
  "levels tieSnapshot = Some \<lparr> resistances = [], supports = [99] \<rparr>"
  "volatility tieSnapshot = Some \<lparr> volatilityValue = 0, bollingerUpper = None,
                                    bollingerMiddle = None, bollingerLower = None \<rparr>"
  by (simp_all add: tieSnapshot_def snapshotAt_def)

lemma scalp_entry:
  "calculateEntryPrice scalpSnapshot BUY ''Falco dello Scalping'' = Inr 1"
  by (simp add: calculateEntryPrice_def scalpSnapshot_parts normalizeProfile_names
      Math_round_def Let_def)

lemma scalp_support: "findNearestSupportBelow scalpSnapshot = Some 1.002"
  by (simp add: findNearestSupportBelow_def scalpSnapshot_parts)

lemma scalp_resistance: "findNearestResistanceAbove scalpSnapshot = None"
  by (simp add: findNearestResistanceAbove_def scalpSnapshot_parts)

lemma scalp_stop:
  "calculateOptimalStopLoss scalpSnapshot long ''Falco dello Scalping'' = Some 1.002"
  by (simp add: calculateOptimalStopLoss_def normalizeProfile_names scalp_support
      calculateATRStopLoss_def findMABasedStopLoss_def scalpSnapshot_parts pushIfTruthy_def
      selectBestStop_def Let_def)

lemma scalp_fibonacci:
  "calculateFibonacciTargetsLong scalpSnapshot =
     Some \<lparr> target1 = 1.004764, target2 = 1.005236, target3 = 1.006, target4 = 1.007236 \<rparr>"
  by (simp add: calculateFibonacciTargetsLong_def scalp_support scalpSnapshot_parts
      truthy_def Let_def)

lemma scalp_target:
  "calculateOptimalTargetPrice scalpSnapshot long ''Falco dello Scalping'' =
     Some \<lparr> targetValue = Some 1.005236 \<rparr>"
  by (simp add: calculateOptimalTargetPrice_def normalizeProfile_names scalp_resistance
      scalp_fibonacci scalpSnapshot_parts pushIfTruthy_def fibonacciCandidates_def
      pickScalping_def Let_def)

lemma scalp_ratio: "calculateRiskRewardRatio 1 (251309 / 250000) (501 / 500) = Some 2.618"
  by (simp add: calculateRiskRewardRatio_def Let_def)

lemma scalp_size: "calculatePositionSize (Some 10000) (Some (1 / 500)) None (Some 0) = 24"
  by (simp add: calculatePositionSize_def basePositionSize_eq maxSize_500
      checkedRiskPercent_def checkedMaxRisk_def volatilityFactor_def Math_round_def)

lemma longterm_entry: "calculateEntryPrice resistanceSnapshot BUY ''longterm'' = Inr 99"
  by (simp add: calculateEntryPrice_def resistanceSnapshot_parts normalizeProfile_names
      Math_round_def Let_def)

lemma longterm_stop: "calculateOptimalStopLoss resistanceSnapshot long ''longterm'' = Some 90"
  by (simp add: calculateOptimalStopLoss_def normalizeProfile_names
      findNearestSupportBelow_def calculateATRStopLoss_def findMABasedStopLoss_def
      resistanceSnapshot_parts pushIfTruthy_def selectBestStop_def Let_def)

lemma longterm_target:
  "calculateOptimalTargetPrice resistanceSnapshot long ''longterm'' =
     Some \<lparr> targetValue = Some 120 \<rparr>"
  by (simp add: calculateOptimalTargetPrice_def normalizeProfile_names
      findNearestResistanceAbove_def findNearestSupportBelow_def
      calculateFibonacciTargetsLong_def truthy_def resistanceSnapshot_parts pushIfTruthy_def
      fibonacciCandidates_def pickPosition_def Let_def)

lemma longterm_ratio: "calculateRiskRewardRatio 99 120 90 = Some (7 / 3)"
  by (simp add: calculateRiskRewardRatio_def Let_def)

lemma longterm_minimum: "getMinimumRiskRewardRatio ''longterm'' = 5 / 2"
  by (simp add: getMinimumRiskRewardRatio_def normalizeProfile_names)

lemma toFixed2_seven_thirds: "toFixed2 (7 / 3) = 233 / 100"
  by (simp add: toFixed2_def)

lemma position_entry:
  "calculateEntryPrice tieSnapshot BUY ''Orso del Position Trading'' = Inr 99"
  by (simp add: calculateEntryPrice_def tieSnapshot_parts normalizeProfile_names
      Math_round_def Let_def)

lemma position_support: "findNearestSupportBelow tieSnapshot = Some 99"
  by (simp add: findNearestSupportBelow_def tieSnapshot_parts)

lemma position_stop:
  "calculateOptimalStopLoss tieSnapshot long ''Orso del Position Trading'' = Some 99"
  by (simp add: calculateOptimalStopLoss_def normalizeProfile_names position_support
      calculateATRStopLoss_def findMABasedStopLoss_def tieSnapshot_parts pushIfTruthy_def
      selectBestStop_def Let_def)

lemma position_fibonacci:
  "calculateFibonacciTargetsLong tieSnapshot =
     Some \<lparr> target1 = 100.382, target2 = 100.618, target3 = 101, target4 = 101.618 \<rparr>"
  by (simp add: calculateFibonacciTargetsLong_def position_support tieSnapshot_parts
      truthy_def Let_def)

lemma position_target:
  "calculateOptimalTargetPrice tieSnapshot long ''Orso del Position Trading'' =
     Some \<lparr> targetValue = Some 100.618 \<rparr>"
  by (simp add: calculateOptimalTargetPrice_def normalizeProfile_names
      findNearestResistanceAbove_def position_fibonacci tieSnapshot_parts pushIfTruthy_def
      fibonacciCandidates_def pickDefault_def Let_def)

lemma position_ratio: "calculateRiskRewardRatio 99 (50309 / 500) 99 = None"
  by (simp add: calculateRiskRewardRatio_def Let_def)

text \<open>
  The entry price in doubles. At the scalping example it is 1, as over exact reals. At a
  price of 5 with the swing profile the two differ by a cent: \<open>(5 - 5 * 0.005) * 100\<close> is
  the tie 497.5 over exact reals and 497.49999999999994 in doubles.
\<close>

lemma scalp_entry_double: "entryPriceDouble (toDouble 1.004) (toDouble 0.0015) BUY = 1"
proof -
  have c: "toDouble 1.004 = 2260807012939989 / 2251799813685248"
    by (simp add: toDouble_eval)
  have k: "toDouble 0.0015 = 3458764513820541 / 2305843009213693952"
    by (simp add: toDouble_eval)
  have d: "toDouble (2260807012939989 / 2251799813685248
                      * (3458764513820541 / 2305843009213693952))
             = 3472599571875823 / 2305843009213693952"
    by (simp add: toDouble_eval)
  have e: "toDouble (2260807012939989 / 2251799813685248
                      - 3472599571875823 / 2305843009213693952)
             = 2257415802420579 / 2251799813685248"
    by (simp add: toDouble_eval)
  have y: "toDouble (2257415802420579 / 2251799813685248 * 100)
             = 7054424382564309 / 70368744177664"
    by (simp add: toDouble_eval)
  have r: "Math_round (7054424382564309 / 70368744177664) = 100"
    by (simp add: Math_round_def)
  have en: "toDouble (100 / 100) = 1"
    by (simp add: toDouble_eval)
  show ?thesis
    unfolding entryPriceDouble_def Let_def orderType.case c k d e y r en by simp
qed

lemma swing_entry_tie:
  "calculateEntryPrice (snapshotAt 5 [] []) BUY ''swing'' = Inr 4.98
   \<and> entryPriceDouble 5 (toDouble 0.005) BUY = toDouble 4.97"
proof -
  have k: "toDouble 0.005 = 5764607523034235 / 1152921504606846976"
    by (simp add: toDouble_eval)
  have d: "toDouble (5 * (5764607523034235 / 1152921504606846976))
             = 3602879701896397 / 144115188075855872"
    by (simp add: toDouble_eval)
  have e: "toDouble (5 - 3602879701896397 / 144115188075855872)
             = 2800676018271027 / 562949953421312"
    by (simp add: toDouble_eval)
  have y: "toDouble (2800676018271027 / 562949953421312 * 100)
             = 8752112557096959 / 17592186044416"
    by (simp add: toDouble_eval)
  have r: "Math_round (8752112557096959 / 17592186044416) = 497"
    by (simp add: Math_round_def)
  have en: "toDouble (497 / 100) = 5595722537007841 / 1125899906842624"
    by (simp add: toDouble_eval)
  have v: "toDouble 4.97 = 5595722537007841 / 1125899906842624"
    by (simp add: toDouble_eval)
  have x: "calculateEntryPrice (snapshotAt 5 [] []) BUY ''swing'' = Inr 4.98"
    by (simp add: calculateEntryPrice_def snapshotAt_def normalizeProfile_swing Math_round_def
        Let_def)
  have "entryPriceDouble 5 (toDouble 0.005) BUY = toDouble 4.97"
    unfolding entryPriceDouble_def Let_def orderType.case k d e y r en v by simp
  with x show ?thesis by simp
qed

text \<open>
  C1. The claim asks that a BUY order returned with \<open>valid = True\<close> has its stop strictly
  below its entry. \<^verbatim>\<open>generateMT4Order\<close> checks the ratio only: the stop is chosen relative
  to the current price, and the entry is then rounded to two decimals. At a price of 1.004
  with a support at 1.002, the scalping profile and a Compra recommendation, the entry is
  1.00 and the stop 1.002: the order is returned with \<open>valid = True\<close>, a BUY with its stop
  above its entry, which \<^verbatim>\<open>validateOrderData\<close> refuses as incoherent.
\<close>

theorem generateMT4Order_stop_above_entry:
  "generateMT4Order (analysisOf scalpSnapshot ''Falco dello Scalping'') ''Compra''
     (Some \<lparr> balance = 10000 \<rparr>)
   = Inr \<lparr> valid = True, message = None,
           details = Some \<lparr> orderSymbol = ''EURUSD'', orderKind = BUY, entryPrice = 1,
                             stopLoss = 1.002, targetPrice = 1.005236, positionSize = 24,
                             riskRewardRatio = 2.618, orderConfidence = Media,
                             orderProfile = ''Falco dello Scalping'' \<rparr> \<rparr>
   \<and> (1.002 :: real) > 1
   \<and> validateOrderData
         \<lparr> orderSymbol = ''EURUSD'', orderKind = BUY, entryPrice = 1, stopLoss = 1.002,
           targetPrice = 1.005236, positionSize = 24, riskRewardRatio = 2.618,
           orderConfidence = Media, orderProfile = ''Falco dello Scalping'' \<rparr> = False"
  by (simp add: generateMT4Order_def analysisOf_def recommendation_Compra scalp_entry
      scalp_stop scalp_target scalp_ratio scalp_size getMinimumRiskRewardRatio_def
      normalizeProfile_names scalpSnapshot_parts validateOrderData_def Let_def)

text \<open>
  C7, as stated, fails in two places. The guard of \<^verbatim>\<open>calculateRiskRewardRatio\<close> returns
  \<^verbatim>\<open>null\<close> for a zero entry, target or stop, also when the denominator is not 0. And where
  the ratio is \<^verbatim>\<open>null\<close> inside \<^verbatim>\<open>generateMT4Order\<close>, no order is returned at all: at a
  price of 100 with a support at 99 and the profile Orso del Position Trading the entry
  and the stop are both 99, the comparison \<^verbatim>\<open>null < minimumRR\<close> holds, and the message
  cannot be built.
\<close>

theorem calculateRiskRewardRatio_counterexample:
  "\<bar>100 - 95\<bar> \<noteq> (0 :: real)
   \<and> calculateRiskRewardRatio 100 0 95 = None
   \<and> calculateRiskRewardRatio 100 0 95 \<noteq> Some (\<bar>0 - 100\<bar> / \<bar>100 - 95\<bar>)
   \<and> calculateEntryPrice tieSnapshot BUY ''Orso del Position Trading'' = Inr 99
   \<and> calculateOptimalStopLoss tieSnapshot long ''Orso del Position Trading'' = Some 99
   \<and> calculateRiskRewardRatio 99 (50309 / 500) 99 = None
   \<and> generateMT4Order (analysisOf tieSnapshot ''Orso del Position Trading'') ''Compra''
        (Some \<lparr> balance = 10000 \<rparr>)
      = Inl TypeError"
  by (simp add: generateMT4Order_def analysisOf_def recommendation_Compra position_entry
      position_stop position_target position_ratio Let_def)
    (simp add: calculateRiskRewardRatio_def)

text \<open>
  C7, amended. For nonzero entry, target and stop with a nonzero denominator the ratio is
  \<open>|target - entry| / |entry - stop|\<close>, so entry 100, target 110, stop 95 give exactly 2;
  the result is \<^verbatim>\<open>null\<close> for a stop equal to the entry and whenever one of the three is
  0; and whenever the ratio computed in \<^verbatim>\<open>generateMT4Order\<close> is a number below the
  minimum of the profile, the order returned has \<open>valid = False\<close> and the message citing
  the ratio and the minimum.
\<close>

theorem riskReward_ratio_and_rejection:
  "(e \<noteq> 0 \<and> t \<noteq> 0 \<and> s \<noteq> 0 \<and> \<bar>e - s\<bar> \<noteq> 0 \<longrightarrow>
      calculateRiskRewardRatio e t s = Some (\<bar>t - e\<bar> / \<bar>e - s\<bar>))
   \<and> calculateRiskRewardRatio 100 110 95 = Some 2
   \<and> calculateRiskRewardRatio e t e = None
   \<and> (e = 0 \<or> t = 0 \<or> s = 0 \<longrightarrow> calculateRiskRewardRatio e t s = None)
   \<and> (determineOrderType recommendation = Some ot
        \<and> calculateEntryPrice (technicalIndicators d) ot (name (tradingProfile d)) = Inr entry
        \<and> calculateOptimalStopLoss (technicalIndicators d)
              (case ot of BUY \<Rightarrow> long | SELL \<Rightarrow> short) (name (tradingProfile d))
            = Some stopV
        \<and> calculateOptimalTargetPrice (technicalIndicators d)
              (case ot of BUY \<Rightarrow> long | SELL \<Rightarrow> short) (name (tradingProfile d))
            = Some \<lparr> targetValue = Some targetV \<rparr>
        \<and> calculateRiskRewardRatio entry targetV stopV = Some ratio
        \<and> ratio < getMinimumRiskRewardRatio (name (tradingProfile d)) \<longrightarrow>
        generateMT4Order d recommendation acct =
          Inr \<lparr> valid = False,
                message = Some (RiskRewardBelowMinimum (toFixed2 ratio)
                                  (getMinimumRiskRewardRatio (name (tradingProfile d)))),
                details = None \<rparr>)"
  using generateMT4Order_ratio_below_minimum [of recommendation ot d entry stopV targetV ratio acct]
  by (auto simp: calculateRiskRewardRatio_def Let_def)

theorem riskReward_ratio_and_rejection_witness:
  "calculateRiskRewardRatio 100 110 95 = Some 2
   \<and> calculateRiskRewardRatio 100 110 100 = None
   \<and> calculateRiskRewardRatio 0 110 95 = None
   \<and> calculateRiskRewardRatio 99 120 90 = Some (7 / 3)
   \<and> (7 / 3 :: real) < getMinimumRiskRewardRatio ''longterm''
   \<and> generateMT4Order (analysisOf resistanceSnapshot ''longterm'') ''Compra''
        (Some \<lparr> balance = 10000 \<rparr>)
      = Inr \<lparr> valid = False, message = Some (RiskRewardBelowMinimum 2.33 2.5),
              details = None \<rparr>"
proof -
  let ?d = "analysisOf resistanceSnapshot ''longterm''"
  have p: "technicalIndicators ?d = resistanceSnapshot" "name (tradingProfile ?d) = ''longterm''"
    by (simp_all add: analysisOf_def)
  have h: "determineOrderType ''Compra'' = Some BUY
           \<and> calculateEntryPrice (technicalIndicators ?d) BUY (name (tradingProfile ?d)) = Inr 99
           \<and> calculateOptimalStopLoss (technicalIndicators ?d)
                (case BUY of BUY \<Rightarrow> long | SELL \<Rightarrow> short) (name (tradingProfile ?d)) = Some 90
           \<and> calculateOptimalTargetPrice (technicalIndicators ?d)
                (case BUY of BUY \<Rightarrow> long | SELL \<Rightarrow> short) (name (tradingProfile ?d))
              = Some \<lparr> targetValue = Some 120 \<rparr>
           \<and> calculateRiskRewardRatio 99 120 90 = Some (7 / 3)
           \<and> 7 / 3 < getMinimumRiskRewardRatio (name (tradingProfile ?d))"
    unfolding p
    by (simp add: recommendation_Compra longterm_entry longterm_stop longterm_target
        longterm_ratio longterm_minimum)
  have z: "(0 :: real) = 0 \<or> (110 :: real) = 0 \<or> (95 :: real) = 0" by simp
  from riskReward_ratio_and_rejection
         [of 100 110 95 "''Compra''" BUY ?d 99 90 120 "7 / 3" "Some \<lparr> balance = 10000 \<rparr>"] h
  have a: "calculateRiskRewardRatio 100 110 95 = Some 2
        \<and> calculateRiskRewardRatio 100 110 100 = None
        \<and> generateMT4Order ?d ''Compra'' (Some \<lparr> balance = 10000 \<rparr>) =
            Inr \<lparr> valid = False,
                  message = Some (RiskRewardBelowMinimum (toFixed2 (7 / 3))
                                    (getMinimumRiskRewardRatio (name (tradingProfile ?d)))),
                  details = None \<rparr>"
    by blast
  from riskReward_ratio_and_rejection [of 0 110 95] z
  have b: "calculateRiskRewardRatio 0 110 95 = None" by blast
  from a b show ?thesis
    unfolding p by (simp add: longterm_ratio longterm_minimum toFixed2_seven_thirds)
qed

end
